theory Spec2Isabelle
  imports Complex_Main "HOL-Library.Sublist" "HOL-Library.Char_ord" "HOL-Library.List_Lexorder"
begin

text \<open>
  A shallow embedding of the core of \<open>sbir-search\<close>: the keyword matcher
  (\<open>matcher.py\<close>), the source orchestrator (\<open>sources.py\<close>), the dedup state store
  (\<open>state.py\<close>), the run of the pipeline (\<open>cli.py\<close>), the notifier (\<open>notify.py\<close>) and,
  of the primary adapter (\<open>sbir.py\<close>), the page fetch with retries and the identifier
  builder.  Functions keep their Python names, without the leading underscore, where
  the name is free in Isabelle.  What
  the network does (the source adapters, the API server, the Discord transport) and
  the content of the state file are inputs of the model.  An exception is a value of
  \<open>py_error\<close>, returned as \<open>Inl\<close>.
\<close>

section \<open>Strings\<close>

text \<open>
  Python strings are modelled as \<open>string\<close> (lists of 8-bit characters) and read as
  ASCII text: \<open>str.lower\<close>, \<open>str.upper\<close> and \<open>str.isalnum\<close> are the ASCII
  versions, and \<open>len\<close> counts characters.  On a character with a code of 128 or more
  Python's versions follow Unicode (\<open>isalnum\<close> holds of an accented letter, and \<open>lower\<close>,
  \<open>upper\<close> and case-insensitive matching fold such letters), so the model speaks for
  ASCII strings, those with \<open>str_isascii\<close>.  An optional field (\<open>str | None\<close>) is a
  \<open>string option\<close>; Python's truth test on it (\<open>value or ""\<close>, \<open>if value\<close>) holds
  for \<open>Some s\<close> with \<open>s\<close> non-empty only.
\<close>

definition is_ascii :: "char \<Rightarrow> bool" where
  "is_ascii c = ((of_char c :: nat) < 128)"

definition str_isascii :: "string \<Rightarrow> bool" where
  "str_isascii s = list_all is_ascii s"

definition bslash :: char where
  "bslash = CHR 0x5C"

definition is_upper :: "char \<Rightarrow> bool" where
  "is_upper c = (let n = (of_char c :: nat) in 65 \<le> n \<and> n \<le> 90)"

definition is_lower :: "char \<Rightarrow> bool" where
  "is_lower c = (let n = (of_char c :: nat) in 97 \<le> n \<and> n \<le> 122)"

definition is_digit :: "char \<Rightarrow> bool" where
  "is_digit c = (let n = (of_char c :: nat) in 48 \<le> n \<and> n \<le> 57)"

definition is_alnum :: "char \<Rightarrow> bool" where
  "is_alnum c = (is_upper c \<or> is_lower c \<or> is_digit c)"

definition lower_char :: "char \<Rightarrow> char" where
  "lower_char c = (if is_upper c then char_of ((of_char c :: nat) + 32) else c)"

definition upper_char :: "char \<Rightarrow> char" where
  "upper_char c = (if is_lower c then char_of ((of_char c :: nat) - 32) else c)"

definition str_lower :: "string \<Rightarrow> string" where
  "str_lower s = map lower_char s"

definition str_upper :: "string \<Rightarrow> string" where
  "str_upper s = map upper_char s"

text \<open>\<open>str.isalnum()\<close>: false on the empty string.\<close>

definition str_isalnum :: "string \<Rightarrow> bool" where
  "str_isalnum s = (s \<noteq> [] \<and> list_all is_alnum s)"

text \<open>The truth test on an optional string.\<close>

definition opt_truthy :: "string option \<Rightarrow> bool" where
  "opt_truthy v = (case v of None \<Rightarrow> False | Some s \<Rightarrow> s \<noteq> [])"

text \<open>\<open>value or default\<close> on an optional string.\<close>

definition str_or :: "string option \<Rightarrow> string \<Rightarrow> string" where
  "str_or v d = (case v of None \<Rightarrow> d | Some s \<Rightarrow> (if s = [] then d else s))"

text \<open>\<open>sep.join(parts)\<close>.\<close>

fun str_join :: "string \<Rightarrow> string list \<Rightarrow> string" where
  "str_join sep [] = []"
| "str_join sep [x] = x"
| "str_join sep (x # y # ys) = x @ sep @ str_join sep (y # ys)"

text \<open>\<open>str(n)\<close> for an integer, as an f-string renders it.\<close>

fun digits_of :: "nat \<Rightarrow> string" where
  "digits_of n =
     (if n < 10 then [char_of (48 + n)]
      else digits_of (n div 10) @ [char_of (48 + n mod 10)])"

definition str_of_int :: "int \<Rightarrow> string" where
  "str_of_int i = (if i < 0 then CHR ''-'' # digits_of (nat (- i)) else digits_of (nat i))"

text \<open>\<open>str.strip()\<close>: ASCII white space is removed at both ends.\<close>

definition is_space :: "char \<Rightarrow> bool" where
  "is_space c = (let n = (of_char c :: nat) in n = 32 \<or> (9 \<le> n \<and> n \<le> 13) \<or> (28 \<le> n \<and> n \<le> 31))"

definition str_strip :: "string \<Rightarrow> string" where
  "str_strip s = rev (dropWhile is_space (rev (dropWhile is_space s)))"

section \<open>Regular expressions built by the matcher\<close>

text \<open>
  \<open>re.escape\<close> puts a backslash before each of the characters
  \<open>()[]{}?*+-|^$\.&~#\<close>, space, tab, newline, carriage return, vertical tab and form
  feed, and leaves every other character as it is.
\<close>

definition re_special :: "char \<Rightarrow> bool" where
  "re_special c = ((of_char c :: nat) \<in> set
     [40, 41, 91, 93, 123, 125, 63, 42, 43, 45, 124, 94, 36, 92, 46, 38, 126, 35,
      32, 9, 10, 13, 11, 12])"

fun re_escape :: "string \<Rightarrow> string" where
  "re_escape [] = []"
| "re_escape (c # cs) = (if re_special c then bslash # c # re_escape cs else c # re_escape cs)"

text \<open>
  \<open>_compile_keyword\<close>: the pattern source handed to \<open>re.compile(..., re.IGNORECASE)\<close>.
  The short-keyword branch is the raw f-string \<^verbatim>\<open>rf"\\b{escaped}\\b"\<close>: in a raw
  string each backslash stands for itself, so the pattern source starts and ends with
  the three characters backslash, backslash, \<open>b\<close>.
\<close>

definition compile_keyword :: "string \<Rightarrow> string" where
  "compile_keyword keyword =
     (let escaped = re_escape keyword in
      if str_isalnum keyword \<and> length keyword \<le> 3
      then [bslash, bslash, CHR ''b''] @ escaped @ [bslash, bslash, CHR ''b'']
      else escaped)"

text \<open>
  The regular expressions of Python's \<open>re\<close> that such a pattern source can denote:
  a sequence of literal characters and word-boundary assertions.  In the pattern
  source a backslash followed by \<open>b\<close> is the assertion \<open>\b\<close>, a backslash followed by
  any other character is that character taken literally (so two backslashes are one
  literal backslash), and every other character is itself.
\<close>

datatype re_item = Lit char | WordBoundary

fun re_parse :: "string \<Rightarrow> re_item list" where
  "re_parse [] = []"
| "re_parse [c] = [Lit c]"
| "re_parse (c # d # cs) =
     (if c = bslash
      then (if d = CHR ''b'' then WordBoundary else Lit d) # re_parse cs
      else Lit c # re_parse (d # cs))"

definition is_word_char :: "char \<Rightarrow> bool" where
  "is_word_char c = (is_alnum c \<or> c = CHR ''_'')"

definition is_word_opt :: "char option \<Rightarrow> bool" where
  "is_word_opt p = (case p of None \<Rightarrow> False | Some c \<Rightarrow> is_word_char c)"

text \<open>
  Matching at a position: \<open>prev\<close> is the character before the position (none at the
  start of the text), the string is the text from the position on.  Literals compare
  without regard to case (\<open>re.IGNORECASE\<close>); \<open>\b\<close> holds where exactly one of the two
  neighbouring characters is a word character.
\<close>

fun re_match_here :: "re_item list \<Rightarrow> char option \<Rightarrow> string \<Rightarrow> bool" where
  "re_match_here [] prev s = True"
| "re_match_here (Lit c # ts) prev [] = False"
| "re_match_here (Lit c # ts) prev (d # s) =
     (lower_char c = lower_char d \<and> re_match_here ts (Some d) s)"
| "re_match_here (WordBoundary # ts) prev s =
     (is_word_opt prev \<noteq> is_word_opt (case s of [] \<Rightarrow> None | d # _ \<Rightarrow> Some d)
      \<and> re_match_here ts prev s)"

fun re_search_from :: "re_item list \<Rightarrow> char option \<Rightarrow> string \<Rightarrow> bool" where
  "re_search_from ts prev [] = re_match_here ts prev []"
| "re_search_from ts prev (d # s) =
     (re_match_here ts prev (d # s) \<or> re_search_from ts (Some d) s)"

text \<open>\<open>pattern.search(text)\<close> finds a match.\<close>

definition pattern_search :: "string \<Rightarrow> string \<Rightarrow> bool" where
  "pattern_search pat text = re_search_from (re_parse pat) None text"

section \<open>Data model\<close>

text \<open>
  JSON values as \<open>json.loads\<close> returns them (numbers are the integers; a number with
  a fraction or an exponent is outside the model).  An object keeps its members in
  order.
\<close>

datatype json =
    JNull
  | JBool bool
  | JInt int
  | JStr string
  | JArr "json list"
  | JObj "(string \<times> json) list"

text \<open>The exceptions the modelled code raises.\<close>

datatype py_error =
    TypeError
  | RuntimeError string
  | HTTPStatusError nat
  | RequestError
  | OverflowError
  | OtherError string

text \<open>\<open>models.Opportunity\<close>; the field \<open>id\<close> is \<open>opp_id\<close> here.\<close>

record opportunity =
  opp_id :: string
  source :: "string option"
  solicitation_title :: string
  solicitation_number :: "string option"
  agency :: "string option"
  branch :: "string option"
  open_date :: "string option"
  close_date :: "string option"
  topic_title :: "string option"
  topic_number :: "string option"
  topic_description :: "string option"
  subtopic_title :: "string option"
  subtopic_description :: "string option"
  url :: "string option"
  raw :: "(string \<times> json) list"

text \<open>\<open>models.Match\<close>.\<close>

record match =
  opportunity :: opportunity
  score :: int
  matched_keywords :: "string list"
  matched_text :: string

text \<open>\<open>matcher.Evaluation\<close> (fields prefixed with \<open>ev_\<close>) and \<open>matcher.MatchResult\<close>.\<close>

record evaluation =
  ev_opportunity :: opportunity
  ev_score :: int
  ev_matched_keywords :: "string list"
  ev_reason :: "string option"

record match_result =
  matches :: "match list"
  skipped :: nat
  evaluations :: "evaluation list"

text \<open>
  The configuration (\<open>config.AppConfig\<close> and its parts), with the fields the modelled
  functions read.  \<open>MatchConfig.keywords\<close> is \<open>match_keywords\<close> here.  The five
  secondary sources share the two flags of their configuration classes.
\<close>

record match_config =
  match_keywords :: "string list"
  exclude_keywords :: "string list"
  min_score :: int
  agencies :: "string list"
  always_include_sources :: "string list"
  match_fields :: "string list"
  retry_max :: int
  retry_backoff_seconds :: real

record notify_config =
  discord_webhook_url :: "string option"
  discord_bot_token :: "string option"
  discord_channel_id :: "string option"
  discord_client_enabled :: bool
  dry_run :: bool

record source_config =
  enabled :: bool
  fallback_only :: bool

record app_config =
  match :: match_config
  notify :: notify_config
  sam :: source_config
  rss :: source_config
  dod :: source_config
  nsf :: source_config
  nih :: source_config
  fail_on_no_results :: bool

section \<open>Matching engine\<close>

text \<open>
  \<open>getattr(opportunity, field_name, None)\<close>.  For a field of the dataclass it gives the
  field's value: a string, \<open>None\<close>, or the \<open>raw\<close> dictionary.  For any other name it gives
  what the lookup finds on the class and on \<open>object\<close> (\<open>__class__\<close>, \<open>__slots__\<close>,
  \<open>__init__\<close>, \<open>__doc__\<close>, \<open>__module__\<close> and so on: a method, a class, a tuple, a string,
  \<open>None\<close>), and the default \<open>None\<close> when it finds nothing.  Which attributes a class has
  depends on the interpreter and on the dataclass decorator, so that part of the
  lookup is a parameter, \<open>class_attrs\<close>.  \<open>AObject b\<close> is an object that is neither a
  string, \<open>None\<close> nor a dictionary, with its truth value \<open>b\<close>.
\<close>

datatype attr = AStr string | ANone | ADict "(string \<times> json) list" | AObject bool

definition attr_of :: "string option \<Rightarrow> attr" where
  "attr_of v = (case v of None \<Rightarrow> ANone | Some s \<Rightarrow> AStr s)"

definition getattr_opp :: "(string \<Rightarrow> attr) \<Rightarrow> opportunity \<Rightarrow> string \<Rightarrow> attr" where
  "getattr_opp class_attrs opp name =
     (if name = ''id'' then AStr (opp_id opp)
      else if name = ''source'' then attr_of (source opp)
      else if name = ''solicitation_title'' then AStr (solicitation_title opp)
      else if name = ''solicitation_number'' then attr_of (solicitation_number opp)
      else if name = ''agency'' then attr_of (agency opp)
      else if name = ''branch'' then attr_of (branch opp)
      else if name = ''open_date'' then attr_of (open_date opp)
      else if name = ''close_date'' then attr_of (close_date opp)
      else if name = ''topic_title'' then attr_of (topic_title opp)
      else if name = ''topic_number'' then attr_of (topic_number opp)
      else if name = ''topic_description'' then attr_of (topic_description opp)
      else if name = ''subtopic_title'' then attr_of (subtopic_title opp)
      else if name = ''subtopic_description'' then attr_of (subtopic_description opp)
      else if name = ''url'' then attr_of (url opp)
      else if name = ''raw'' then ADict (raw opp)
      else class_attrs name)"

text \<open>The names of the fields of the dataclass that hold a string or \<open>None\<close>.\<close>

definition string_fields :: "string list" where
  "string_fields =
     [''id'', ''source'', ''solicitation_title'', ''solicitation_number'', ''agency'',
      ''branch'', ''open_date'', ''close_date'', ''topic_title'', ''topic_number'',
      ''topic_description'', ''subtopic_title'', ''subtopic_description'', ''url'']"

text \<open>\<open>if value\<close>: a non-empty string, a non-empty dictionary, a truthy object.\<close>

definition attr_truthy :: "attr \<Rightarrow> bool" where
  "attr_truthy a =
     (case a of AStr s \<Rightarrow> s \<noteq> [] | ANone \<Rightarrow> False | ADict d \<Rightarrow> d \<noteq> [] | AObject b \<Rightarrow> b)"

text \<open>
  \<open>build_text\<close>: the loop collects the truthy values; \<open>"\n".join(fields)\<close> raises
  \<open>TypeError\<close> when one of them is not a string.
\<close>

fun collect_fields :: "(string \<Rightarrow> attr) \<Rightarrow> opportunity \<Rightarrow> string list \<Rightarrow> attr list" where
  "collect_fields class_attrs opp [] = []"
| "collect_fields class_attrs opp (field_name # rest) =
     (let v = getattr_opp class_attrs opp field_name in
      if attr_truthy v then v # collect_fields class_attrs opp rest
      else collect_fields class_attrs opp rest)"

fun join_fields :: "attr list \<Rightarrow> py_error + string list" where
  "join_fields [] = Inr []"
| "join_fields (AStr s # vs) =
     (case join_fields vs of Inl e \<Rightarrow> Inl e | Inr ss \<Rightarrow> Inr (s # ss))"
| "join_fields (v # vs) = Inl TypeError"

definition build_text ::
  "(string \<Rightarrow> attr) \<Rightarrow> opportunity \<Rightarrow> app_config \<Rightarrow> py_error + string" where
  "build_text class_attrs opp config =
     (case join_fields (collect_fields class_attrs opp (match_fields (match config))) of
        Inl e \<Rightarrow> Inl e
      | Inr strs \<Rightarrow> Inr (str_lower (str_join [CHR 0x0A] strs)))"

text \<open>\<open>_first_excluded\<close>: the first keyword of the zipped lists whose pattern matches.\<close>

fun first_excluded :: "string \<Rightarrow> string list \<Rightarrow> string list \<Rightarrow> string option" where
  "first_excluded text (pattern # patterns) (kw # kws) =
     (if pattern_search pattern text then Some kw else first_excluded text patterns kws)"
| "first_excluded text patterns kws = None"

text \<open>
  The body of the loop of \<open>match_opportunities\<close>.  Every path through it ends in one
  of two ways: the record is skipped (\<open>skipped += 1\<close> and an \<open>Evaluation\<close> with the
  score, the matched keywords and a reason is appended, then \<open>continue\<close>), or it is
  accepted (a \<open>Match\<close> and an \<open>Evaluation\<close> are appended).  \<open>verdict_of\<close> is the chain of
  tests that picks the path, \<open>record_verdict\<close> is the update of the three
  accumulators at its end.  \<open>if excluded:\<close> is Python's truth test on \<open>str | None\<close>:
  it holds for a non-empty keyword.
\<close>

datatype verdict = Skip int "string list" string | Accept int "string list" string

definition verdict_of ::
  "(string \<Rightarrow> attr) \<Rightarrow> app_config \<Rightarrow> string list \<Rightarrow> string list \<Rightarrow> string set \<Rightarrow> string list \<Rightarrow>
   string list \<Rightarrow> opportunity \<Rightarrow> py_error + verdict" where
  "verdict_of class_attrs config kwds excludes always_include compiled compiled_excludes opp =
     (let src = str_lower (str_or (source opp) []);
          whitelisted = (src \<in> always_include) in
      if agencies (match config) \<noteq> []
         \<and> str_upper (str_or (agency opp) []) \<notin> set (agencies (match config))
      then Inr (Skip 0 [] ''agency_filtered'')
      else
       (case build_text class_attrs opp config of
          Inl e \<Rightarrow> Inl e
        | Inr text \<Rightarrow>
           if text = [] \<and> \<not> whitelisted
           then Inr (Skip 0 [] ''no_text'')
           else
            (let excluded = (if text \<noteq> [] then first_excluded text compiled_excludes excludes
                             else None) in
             if opt_truthy excluded
             then Inr (Skip 0 [] (''excluded_keyword:'' @ the excluded))
             else
              (let matched = (if text \<noteq> []
                              then map fst (filter (\<lambda>(kw, pattern). pattern_search pattern text)
                                             (zip kwds compiled))
                              else []);
                   sc = int (length matched) in
               if sc < min_score (match config) \<and> \<not> whitelisted
               then Inr (Skip sc matched (''score<'' @ str_of_int (min_score (match config))))
               else Inr (Accept sc matched text)))))"

definition record_verdict :: "app_config \<Rightarrow> match_result \<Rightarrow> opportunity \<Rightarrow> verdict \<Rightarrow> match_result" where
  "record_verdict config acc opp v =
     (case v of
        Skip sc kws why \<Rightarrow>
          acc\<lparr>skipped := skipped acc + 1,
              evaluations := evaluations acc @
                [\<lparr>ev_opportunity = opp, ev_score = sc, ev_matched_keywords = kws,
                  ev_reason = Some why\<rparr>]\<rparr>
      | Accept sc kws text \<Rightarrow>
          acc\<lparr>matches := matches acc @
                [\<lparr>opportunity = opp, score = sc, matched_keywords = kws,
                  matched_text = text\<rparr>],
              evaluations := evaluations acc @
                [\<lparr>ev_opportunity = opp, ev_score = sc, ev_matched_keywords = kws,
                  ev_reason = (if sc \<ge> min_score (match config) then None
                               else Some ''source_whitelist'')\<rparr>]\<rparr>)"

definition match_step ::
  "(string \<Rightarrow> attr) \<Rightarrow> app_config \<Rightarrow> string list \<Rightarrow> string list \<Rightarrow> string set \<Rightarrow> string list \<Rightarrow>
   string list \<Rightarrow> match_result \<Rightarrow> opportunity \<Rightarrow> py_error + match_result" where
  "match_step class_attrs config kwds excludes always_include compiled compiled_excludes acc opp =
     (case verdict_of class_attrs config kwds excludes always_include compiled compiled_excludes
             opp of
        Inl e \<Rightarrow> Inl e
      | Inr v \<Rightarrow> Inr (record_verdict config acc opp v))"

fun match_loop ::
  "(match_result \<Rightarrow> opportunity \<Rightarrow> py_error + match_result) \<Rightarrow> opportunity list \<Rightarrow>
   match_result \<Rightarrow> py_error + match_result" where
  "match_loop step [] acc = Inr acc"
| "match_loop step (opp # opps) acc =
     (case step acc opp of Inl e \<Rightarrow> Inl e | Inr acc' \<Rightarrow> match_loop step opps acc')"

definition match_opportunities ::
  "(string \<Rightarrow> attr) \<Rightarrow> opportunity list \<Rightarrow> app_config \<Rightarrow> py_error + match_result" where
  "match_opportunities class_attrs opps config =
     (let kwds = map str_lower (match_keywords (match config));
          excludes = map str_lower (exclude_keywords (match config));
          always_include = set (map str_lower (always_include_sources (match config)));
          compiled = map compile_keyword kwds;
          compiled_excludes = map compile_keyword excludes
      in match_loop
           (match_step class_attrs config kwds excludes always_include compiled compiled_excludes)
           opps \<lparr>matches = [], skipped = 0, evaluations = []\<rparr>)"

section \<open>Aggregation orchestrator\<close>

text \<open>
  The six source adapters, in the order \<open>collect_opportunities\<close> calls them.  What an
  adapter does when it is called is an input of the model: it returns its list of
  opportunities (for the primary source, the opportunities of the fetched
  solicitations) or raises an exception with a message.
\<close>

datatype adapter = Sbir | DodDarpa | NsfSeedfund | NihGuide | GrantsRss | Sam

datatype fetch_result = Fetched "opportunity list" | Raised string

record source_report =
  rep_name :: string
  rep_count :: nat

fun report_name :: "adapter \<Rightarrow> string" where
  "report_name Sbir = ''sbir''"
| "report_name DodDarpa = ''dod_darpa''"
| "report_name NsfSeedfund = ''nsf_seedfund''"
| "report_name NihGuide = ''nih_guide''"
| "report_name GrantsRss = ''grants_rss''"
| "report_name Sam = ''sam''"

fun error_label :: "adapter \<Rightarrow> string" where
  "error_label Sbir = ''SBIR.gov''"
| "error_label DodDarpa = ''DARPA topics''"
| "error_label NsfSeedfund = ''NSF solicitations''"
| "error_label NihGuide = ''NIH Guide''"
| "error_label GrantsRss = ''Grants.gov RSS''"
| "error_label Sam = ''SAM.gov''"

text \<open>
  The three lists \<open>collect_opportunities\<close> builds, and the log of the adapters it has
  called (the calls are the effect the fallback rule is about).
\<close>

record collected =
  opportunities :: "opportunity list"
  reports :: "source_report list"
  errors :: "string list"
  calls :: "adapter list"

text \<open>
  One \<open>try: ... except Exception\<close> block: the adapter is called; on success its
  opportunities and its report are appended, on an exception the labelled message
  is appended.  The boolean is the block's \<open>..._failed\<close> flag.
\<close>

definition try_source :: "(adapter \<Rightarrow> fetch_result) \<Rightarrow> adapter \<Rightarrow> collected \<Rightarrow> bool \<times> collected" where
  "try_source fetch a st =
     (case fetch a of
        Fetched opps \<Rightarrow>
          (False, st\<lparr>opportunities := opportunities st @ opps,
                      reports := reports st @ [\<lparr>rep_name = report_name a, rep_count = length opps\<rparr>],
                      calls := calls st @ [a]\<rparr>)
      | Raised msg \<Rightarrow>
          (True, st\<lparr>errors := errors st @ [error_label a @ '': '' @ msg],
                     calls := calls st @ [a]\<rparr>))"

text \<open>
  A block of a secondary source: \<open>x_failed = False\<close>, and the \<open>try\<close> block runs only
  under the condition of its \<open>if\<close>.
\<close>

definition guarded_source ::
  "bool \<Rightarrow> (adapter \<Rightarrow> fetch_result) \<Rightarrow> adapter \<Rightarrow> collected \<Rightarrow> bool \<times> collected" where
  "guarded_source cond fetch a st = (if cond then try_source fetch a st else (False, st))"

definition collect_run :: "app_config \<Rightarrow> (adapter \<Rightarrow> fetch_result) \<Rightarrow> collected" where
  "collect_run config fetch =
     (let s0 = \<lparr>opportunities = [], reports = [], errors = [], calls = []\<rparr>;
          (sbir_failed, s1) = try_source fetch Sbir s0;
          (dod_failed, s2) =
            guarded_source (enabled (dod config) \<and> (sbir_failed \<or> \<not> fallback_only (dod config)))
              fetch DodDarpa s1;
          (nsf_failed, s3) =
            guarded_source (enabled (nsf config) \<and> (sbir_failed \<or> \<not> fallback_only (nsf config)))
              fetch NsfSeedfund s2;
          (nih_failed, s4) =
            guarded_source (enabled (nih config) \<and> (sbir_failed \<or> \<not> fallback_only (nih config)))
              fetch NihGuide s3;
          (rss_failed, s5) =
            guarded_source (enabled (rss config) \<and> (sbir_failed \<or> \<not> fallback_only (rss config)))
              fetch GrantsRss s4;
          (sam_failed, s6) =
            guarded_source
              (enabled (sam config) \<and>
                 (sbir_failed \<or> rss_failed \<or> dod_failed \<or> nsf_failed \<or> nih_failed
                  \<or> \<not> fallback_only (sam config)))
              fetch Sam s5
      in s6)"

text \<open>\<open>collect_opportunities\<close>: the final check raises, or the three lists are returned.\<close>

definition collect_opportunities ::
  "app_config \<Rightarrow> (adapter \<Rightarrow> fetch_result) \<Rightarrow>
   py_error + (opportunity list \<times> source_report list \<times> string list)" where
  "collect_opportunities config fetch =
     (let st = collect_run config fetch in
      if opportunities st = [] \<and> errors st \<noteq> [] \<and> fail_on_no_results config
      then Inl (RuntimeError (''All sources failed: '' @ str_join ''; '' (errors st)))
      else Inr (opportunities st, reports st, errors st))"

text \<open>
  The rule of the specification, in its words: a secondary adapter executes if it is
  enabled and it is not fallback-only or at least one adapter that executed strictly
  before it in priority order (the primary included) has failed.
\<close>

fun source_flags :: "app_config \<Rightarrow> adapter \<Rightarrow> source_config" where
  "source_flags config Sbir = \<lparr>enabled = True, fallback_only = False\<rparr>"
| "source_flags config DodDarpa = dod config"
| "source_flags config NsfSeedfund = nsf config"
| "source_flags config NihGuide = nih config"
| "source_flags config GrantsRss = rss config"
| "source_flags config Sam = sam config"

definition failed :: "(adapter \<Rightarrow> fetch_result) \<Rightarrow> adapter \<Rightarrow> bool" where
  "failed fetch a = (case fetch a of Raised msg \<Rightarrow> True | Fetched opps \<Rightarrow> False)"

definition fetched :: "(adapter \<Rightarrow> fetch_result) \<Rightarrow> adapter \<Rightarrow> opportunity list" where
  "fetched fetch a = (case fetch a of Raised msg \<Rightarrow> [] | Fetched opps \<Rightarrow> opps)"

definition error_text :: "(adapter \<Rightarrow> fetch_result) \<Rightarrow> adapter \<Rightarrow> string" where
  "error_text fetch a =
     error_label a @ '': '' @ (case fetch a of Raised msg \<Rightarrow> msg | Fetched opps \<Rightarrow> [])"

definition spec_executes :: "app_config \<Rightarrow> (adapter \<Rightarrow> fetch_result) \<Rightarrow> adapter list \<Rightarrow> adapter \<Rightarrow> bool" where
  "spec_executes config fetch executed_before a =
     (enabled (source_flags config a)
      \<and> (\<not> fallback_only (source_flags config a)
         \<or> list_ex (failed fetch) executed_before))"

text \<open>The fixed order in which the adapters have their turn.\<close>

definition priority_order :: "adapter list" where
  "priority_order = [Sbir, DodDarpa, NsfSeedfund, NihGuide, GrantsRss, Sam]"

text \<open>The adapters earlier than \<open>a\<close> in that order that were called, given the call log.\<close>

definition executed_before :: "adapter \<Rightarrow> adapter list \<Rightarrow> adapter list" where
  "executed_before a called =
     filter (\<lambda>b. b \<in> set called) (takeWhile (\<lambda>b. b \<noteq> a) priority_order)"

text \<open>
  The conditions of the \<open>if\<close> statements, in terms of what the adapters do:
  \<open>primary_gate\<close> for the four sources that look at \<open>sbir_failed\<close> only, \<open>sam_gate\<close> for
  the last one.
\<close>

definition primary_gate :: "app_config \<Rightarrow> (adapter \<Rightarrow> fetch_result) \<Rightarrow> adapter \<Rightarrow> bool" where
  "primary_gate config fetch a =
     (enabled (source_flags config a)
      \<and> (failed fetch Sbir \<or> \<not> fallback_only (source_flags config a)))"

definition sam_gate :: "app_config \<Rightarrow> (adapter \<Rightarrow> fetch_result) \<Rightarrow> bool" where
  "sam_gate config fetch =
     (enabled (sam config) \<and>
        (failed fetch Sbir
         \<or> (primary_gate config fetch GrantsRss \<and> failed fetch GrantsRss)
         \<or> (primary_gate config fetch DodDarpa \<and> failed fetch DodDarpa)
         \<or> (primary_gate config fetch NsfSeedfund \<and> failed fetch NsfSeedfund)
         \<or> (primary_gate config fetch NihGuide \<and> failed fetch NihGuide)
         \<or> \<not> fallback_only (sam config)))"


section \<open>Dedup state store\<close>

text \<open>
  The elements a loaded \<open>seen_ids\<close> set can hold: the hashable JSON values.  Python
  compares \<open>True\<close> and \<open>False\<close> equal to the integers 1 and 0, and a set keeps of
  equal elements the one added first: \<open>set_add\<close> is \<open>set.add\<close>.
\<close>

datatype pykey = KNone | KBool bool | KInt int | KStr string

definition key_num :: "pykey \<Rightarrow> int option" where
  "key_num k =
     (case k of KBool b \<Rightarrow> Some (if b then 1 else 0) | KInt i \<Rightarrow> Some i | _ \<Rightarrow> None)"

definition py_eq :: "pykey \<Rightarrow> pykey \<Rightarrow> bool" where
  "py_eq a b = (a = b \<or> (key_num a \<noteq> None \<and> key_num a = key_num b))"

definition set_add :: "pykey \<Rightarrow> pykey set \<Rightarrow> pykey set" where
  "set_add k ks = (if Bex ks (py_eq k) then ks else insert k ks)"

record state =
  seen_ids :: "pykey set"

text \<open>
  The state file as \<open>load_state\<close> finds it: absent, text that \<open>json.loads\<close> rejects
  with \<open>JSONDecodeError\<close>, or text it parses (a file that exists is taken to be
  readable text).
\<close>

datatype state_file = Missing | Unparsable | Parsed json

text \<open>\<open>data.get(key, default)\<close> on a parsed object: of a repeated key the last member counts.\<close>

definition dict_get :: "(string \<times> json) list \<Rightarrow> string \<Rightarrow> json \<Rightarrow> json" where
  "dict_get members k d = (case map_of (rev members) k of None \<Rightarrow> d | Some v \<Rightarrow> v)"

text \<open>
  \<open>set(value)\<close>: a list is iterated from the left and each element hashed and added
  (a list or an object is unhashable: \<open>TypeError\<close>); a string gives its characters, an
  object its keys; any other value is not iterable (\<open>TypeError\<close>).
\<close>

fun hash_key :: "json \<Rightarrow> py_error + pykey" where
  "hash_key JNull = Inr KNone"
| "hash_key (JBool b) = Inr (KBool b)"
| "hash_key (JInt i) = Inr (KInt i)"
| "hash_key (JStr s) = Inr (KStr s)"
| "hash_key (JArr xs) = Inl TypeError"
| "hash_key (JObj members) = Inl TypeError"

fun set_of_list :: "json list \<Rightarrow> pykey set \<Rightarrow> py_error + pykey set" where
  "set_of_list [] ks = Inr ks"
| "set_of_list (x # xs) ks =
     (case hash_key x of
        Inl e \<Rightarrow> Inl e
      | Inr k \<Rightarrow> set_of_list xs (set_add k ks))"

fun py_set :: "json \<Rightarrow> py_error + pykey set" where
  "py_set (JArr xs) = set_of_list xs {}"
| "py_set (JStr s) = Inr (set (map (\<lambda>c. KStr [c]) s))"
| "py_set (JObj members) = Inr (set (map (\<lambda>(k, v). KStr k) members))"
| "py_set v = Inl TypeError"

definition load_state :: "state_file \<Rightarrow> py_error + state" where
  "load_state f =
     (case f of
        Missing \<Rightarrow> Inr \<lparr>seen_ids = {}\<rparr>
      | Unparsable \<Rightarrow> Inr \<lparr>seen_ids = {}\<rparr>
      | Parsed data \<Rightarrow>
          (case data of
             JObj members \<Rightarrow>
               (case py_set (dict_get members ''seen_ids'' (JArr [])) of
                  Inl e \<Rightarrow> Inl e
                | Inr seen \<Rightarrow> Inr \<lparr>seen_ids = seen\<rparr>)
           | _ \<Rightarrow> Inr \<lparr>seen_ids = {}\<rparr>))"

text \<open>
  \<open>save_state\<close>: \<open>sorted(state.seen_ids)\<close> raises \<open>TypeError\<close> when the set mixes
  strings, numbers and \<open>None\<close>; otherwise the sorted list is written.  Numbers are
  sorted by value, booleans among them, and each is written as the element the set
  holds for it (\<open>true\<close> or \<open>false\<close> for a boolean).
\<close>

definition key_str :: "pykey \<Rightarrow> string" where
  "key_str k = (case k of KStr s \<Rightarrow> s | _ \<Rightarrow> [])"

definition is_kstr :: "pykey \<Rightarrow> bool" where
  "is_kstr k = (case k of KStr s \<Rightarrow> True | _ \<Rightarrow> False)"

definition is_knum :: "pykey \<Rightarrow> bool" where
  "is_knum k = (key_num k \<noteq> None)"

definition num_json :: "pykey set \<Rightarrow> int \<Rightarrow> json" where
  "num_json ks v =
     (if (v = 0 \<or> v = 1) \<and> KBool (v = 1) \<in> ks then JBool (v = 1) else JInt v)"

definition sorted_ids :: "pykey set \<Rightarrow> py_error + json list" where
  "sorted_ids ks =
     (if Ball ks is_kstr then Inr (map JStr (sorted_list_of_set (key_str ` ks)))
      else if Ball ks is_knum
      then Inr (map (num_json ks) (sorted_list_of_set ((\<lambda>k. the (key_num k)) ` ks)))
      else if ks = {KNone} then Inr [JNull]
      else Inl TypeError)"

definition save_state :: "state \<Rightarrow> py_error + state_file" where
  "save_state st =
     (case sorted_ids (seen_ids st) of
        Inl e \<Rightarrow> Inl e
      | Inr ids \<Rightarrow> Inr (Parsed (JObj [(''seen_ids'', JArr ids)])))"

text \<open>
  \<open>cli._filter_new\<close> and \<open>cli._remember\<close>.  An id is a string, which equals no element of
  another kind, so adding it is plain insertion.
\<close>

fun filter_new :: "match list \<Rightarrow> state \<Rightarrow> match list" where
  "filter_new [] st = []"
| "filter_new (m # ms) st =
     (if KStr (opp_id (opportunity m)) \<notin> seen_ids st then m # filter_new ms st
      else filter_new ms st)"

fun remember :: "state \<Rightarrow> match list \<Rightarrow> state" where
  "remember st [] = st"
| "remember st (m # ms) =
     remember (st\<lparr>seen_ids := insert (KStr (opp_id (opportunity m))) (seen_ids st)\<rparr>) ms"

section \<open>Notifier\<close>

text \<open>
  A payload is a dictionary with the key \<open>content\<close>.  \<open>_format_match\<close> and
  \<open>_build_payloads\<close> are the functions of \<open>notify.py\<close>; the loop of \<open>_build_payloads\<close>
  carries \<open>lines\<close>, \<open>payloads\<close> and \<open>length\<close>.
\<close>

type_synonym payload = "string \<rightharpoonup> string"

definition format_match :: "match \<Rightarrow> string" where
  "format_match m =
     (let opp = opportunity m;
          src = str_or (source opp) ''sbir'';
          title = str_or (topic_title opp) (solicitation_title opp);
          agency_text = str_or (agency opp) [];
          close_text = str_or (close_date opp) [];
          url_text = str_or (url opp) [];
          keyword_list = str_join '', '' (matched_keywords m)
      in str_strip (''- ['' @ src @ ''] **'' @ title @ ''** ('' @ agency_text @ '') close ''
           @ close_text @ '' score '' @ str_of_int (score m) @ '' ['' @ keyword_list @ ''] ''
           @ url_text))"

definition content_of :: "string list \<Rightarrow> payload" where
  "content_of lines = [''content'' \<mapsto> str_join [CHR 0x0A] lines]"

fun build_payloads_loop :: "match list \<Rightarrow> string list \<Rightarrow> payload list \<Rightarrow> nat \<Rightarrow> payload list" where
  "build_payloads_loop [] lines payloads len =
     (if lines \<noteq> [] then payloads @ [content_of lines] else payloads)"
| "build_payloads_loop (m # ms) lines payloads len =
     (let line = format_match m in
      if len + length line + 1 > 1800
      then build_payloads_loop ms ([''**SBIR matches (cont.):**''] @ [line])
             (payloads @ [content_of lines])
             (length ''**SBIR matches (cont.):**'' + (length line + 1))
      else build_payloads_loop ms (lines @ [line]) payloads (len + (length line + 1)))"

definition build_payloads :: "match list \<Rightarrow> payload list" where
  "build_payloads ms =
     build_payloads_loop ms [''**SBIR matches:**''] [] (length ''**SBIR matches:**'')"

text \<open>
  The delivery calls are inputs of the model.  For the payload at position \<open>i\<close> of the
  list, \<open>webhook_post\<close> is \<open>_post_discord_webhook\<close> and \<open>bot_http_post\<close> is
  \<open>_post_discord_bot_http\<close> (\<open>None\<close> when the call returns, the exception when it
  raises), \<open>discord_send\<close> is the boolean \<open>_run_discord_send\<close> returns, and
  \<open>discord_importable\<close> says whether \<open>import discord\<close> succeeds.
\<close>

record transport =
  webhook_post :: "nat \<Rightarrow> string \<Rightarrow> payload \<Rightarrow> py_error option"
  discord_importable :: bool
  discord_send :: "nat \<Rightarrow> string \<Rightarrow> string \<Rightarrow> string \<Rightarrow> bool"
  bot_http_post :: "nat \<Rightarrow> string \<Rightarrow> string \<Rightarrow> payload \<Rightarrow> py_error option"

definition post_discord_bot :: "transport \<Rightarrow> nat \<Rightarrow> string \<Rightarrow> string \<Rightarrow> payload \<Rightarrow> py_error option" where
  "post_discord_bot tr i token channel_id p =
     (case p ''content'' of
        None \<Rightarrow> None
      | Some content \<Rightarrow>
          if \<not> discord_importable tr then bot_http_post tr i token channel_id p
          else if \<not> discord_send tr i token channel_id content
          then bot_http_post tr i token channel_id p
          else None)"

text \<open>
  A \<open>for payload in payloads\<close> loop of posts: the first exception ends it.  (The
  \<open>import discord\<close> that \<open>_send_payloads\<close> tries under \<open>discord_client_enabled\<close> changes
  nothing and is left out.)
\<close>

fun post_each :: "(nat \<Rightarrow> payload \<Rightarrow> py_error option) \<Rightarrow> nat \<Rightarrow> payload list \<Rightarrow> py_error option" where
  "post_each post i [] = None"
| "post_each post i (p # ps) =
     (case post i p of Some e \<Rightarrow> Some e | None \<Rightarrow> post_each post (Suc i) ps)"

definition send_payloads :: "transport \<Rightarrow> payload list \<Rightarrow> app_config \<Rightarrow> py_error + nat" where
  "send_payloads tr payloads config =
     (let n = notify config in
      if opt_truthy (discord_webhook_url n)
      then (case post_each (\<lambda>i p. webhook_post tr i (the (discord_webhook_url n)) p) 0 payloads of
              Some e \<Rightarrow> Inl e
            | None \<Rightarrow> Inr (length payloads))
      else if opt_truthy (discord_bot_token n) \<and> opt_truthy (discord_channel_id n)
      then (case post_each (\<lambda>i p. post_discord_bot tr i (the (discord_bot_token n))
                                     (the (discord_channel_id n)) p) 0 payloads of
              Some e \<Rightarrow> Inl e
            | None \<Rightarrow> Inr (length payloads))
      else Inl (RuntimeError (''Discord credentials not configured. Set DISCORD_WEBHOOK_URL or ''
                 @ ''DISCORD_TOKEN + DISCORD_CHANNEL_ID.'')))"

record notify_result =
  sent :: nat
  not_sent :: nat

text \<open>\<open>notify.notify\<close> (\<open>NotifyResult.skipped\<close> is \<open>not_sent\<close> here; the dry run prints).\<close>

definition notify_matches :: "transport \<Rightarrow> match list \<Rightarrow> app_config \<Rightarrow> py_error + notify_result" where
  "notify_matches tr ms config =
     (if ms = [] then Inr \<lparr>sent = 0, not_sent = 0\<rparr>
      else if dry_run (notify config) then Inr \<lparr>sent = 0, not_sent = length ms\<rparr>
      else (case send_payloads tr (build_payloads ms) config of
              Inl e \<Rightarrow> Inl e
            | Inr n \<Rightarrow> Inr \<lparr>sent = n, not_sent = 0\<rparr>))"

section \<open>The run\<close>

text \<open>\<open>cli._explain\<close>: one payload per evaluation.\<close>

record explanation =
  ex_id :: string
  ex_source :: "string option"
  ex_title :: string
  ex_agency :: "string option"
  ex_open_date :: "string option"
  ex_close_date :: "string option"
  ex_score :: int
  ex_matched_keywords :: "string list"
  ex_reason :: string
  ex_url :: "string option"

definition explain_evaluations :: "evaluation list \<Rightarrow> (string \<times> explanation) list" where
  "explain_evaluations evs =
     map (\<lambda>ev. let opp = ev_opportunity ev in
            (opp_id opp,
             \<lparr>ex_id = opp_id opp, ex_source = source opp,
               ex_title = str_or (topic_title opp) (solicitation_title opp),
               ex_agency = agency opp, ex_open_date = open_date opp,
               ex_close_date = close_date opp, ex_score = ev_score ev,
               ex_matched_keywords = ev_matched_keywords ev,
               ex_reason = str_or (ev_reason ev) ''matched'',
               ex_url = url opp\<rparr>)) evs"

record run_summary =
  total_opportunities :: nat
  matched :: nat
  new_matches :: nat
  summary_skipped :: nat
  sources :: "string list"
  summary_errors :: "string list"
  summary_evaluations :: "(string \<times> explanation) list"

text \<open>
  What a call of \<open>cli.run\<close> leaves behind: the summary it returns or the exception it
  raises, the \<open>State\<close> object as it is when the call ends (if \<open>load_state\<close> created
  one), the state file, and the number of times the file was written.
\<close>

record run_outcome =
  result :: "py_error + run_summary"
  memory :: "state option"
  disk :: state_file
  writes :: nat

definition run ::
  "(string \<Rightarrow> attr) \<Rightarrow> app_config \<Rightarrow> bool \<Rightarrow> (adapter \<Rightarrow> fetch_result) \<Rightarrow> transport \<Rightarrow> state_file \<Rightarrow>
   run_outcome" where
  "run class_attrs config explain fetch tr disk0 =
     (case collect_opportunities config fetch of
        Inl e \<Rightarrow> \<lparr>result = Inl e, memory = None, disk = disk0, writes = 0\<rparr>
      | Inr (opps, reps, errs) \<Rightarrow>
         (case load_state disk0 of
            Inl e \<Rightarrow> \<lparr>result = Inl e, memory = None, disk = disk0, writes = 0\<rparr>
          | Inr st \<Rightarrow>
             (case match_opportunities class_attrs opps config of
                Inl e \<Rightarrow> \<lparr>result = Inl e, memory = Some st, disk = disk0, writes = 0\<rparr>
              | Inr mr \<Rightarrow>
                 (let new = filter_new (matches mr) st;
                      summary = \<lparr>total_opportunities = length opps,
                                 matched = length (matches mr),
                                 new_matches = length new,
                                 summary_skipped = skipped mr,
                                 sources = map (\<lambda>r. rep_name r @ '':'' @ str_of_int (int (rep_count r))) reps,
                                 summary_errors = errs,
                                 summary_evaluations =
                                   (if explain then explain_evaluations (evaluations mr) else [])\<rparr>
                  in if new \<noteq> []
                     then (case notify_matches tr new config of
                             Inl e \<Rightarrow> \<lparr>result = Inl e, memory = Some st, disk = disk0, writes = 0\<rparr>
                           | Inr sent_result \<Rightarrow>
                              (let st' = remember st new in
                               case save_state st' of
                                 Inl e \<Rightarrow> \<lparr>result = Inl e, memory = Some st', disk = disk0,
                                           writes = 0\<rparr>
                               | Inr written \<Rightarrow> \<lparr>result = Inr summary, memory = Some st',
                                                 disk = written, writes = 1\<rparr>))
                     else \<lparr>result = Inr summary, memory = Some st, disk = disk0, writes = 0\<rparr>))))"

section \<open>Paginated fetch with retries\<close>

text \<open>
  What one attempt of \<open>_fetch_page\<close> meets is an input of the model, a function of the
  attempt number: a response whose body parses (with the final URL), an HTTP error
  status (\<open>raise_for_status\<close> raises \<open>HTTPStatusError\<close>), a transport failure
  (\<open>RequestError\<close>), or another exception (one the two \<open>except\<close> clauses do not catch).
\<close>

datatype attempt_outcome = Body json string | Status nat | Transport | Uncaught string

record api_response =
  records :: "json list"
  source_url :: string

definition is_dict :: "json \<Rightarrow> bool" where
  "is_dict v = (case v of JObj members \<Rightarrow> True | _ \<Rightarrow> False)"

fun first_list :: "(string \<times> json) list \<Rightarrow> string list \<Rightarrow> json list option" where
  "first_list members [] = None"
| "first_list members (k # ks) =
     (case dict_get members k JNull of
        JArr xs \<Rightarrow> Some xs
      | _ \<Rightarrow> first_list members ks)"

definition extract_records :: "json \<Rightarrow> json list" where
  "extract_records data =
     (case data of
        JArr xs \<Rightarrow> filter is_dict xs
      | JObj members \<Rightarrow>
          (case first_list members [''solicitations'', ''results'', ''data'', ''items''] of
             Some xs \<Rightarrow> filter is_dict xs
           | None \<Rightarrow> [])
      | _ \<Rightarrow> [])"

text \<open>
  The loop \<open>for attempt in range(retries + 1)\<close> with the code after it.  The result
  comes with the number of attempts made and the list of the delays slept, in order.

  A delay is \<open>backoff * (2**attempt)\<close>, a float times an integer: the integer is
  converted to a float, which raises \<open>OverflowError\<close> when it does not fit (from
  \<open>2**1024\<close> on).  \<open>time.sleep\<close> raises \<open>OverflowError\<close> for a delay above the limit of the
  platform's clock; that limit, \<open>sleep_limit\<close>, is a parameter of the model (it is below
  the largest float, so a product that overflows to infinity is above it).  Both
  exceptions arise inside an \<open>except\<close> block and leave the function.  Delays are real
  numbers: a float product with a power of two is exact.
\<close>

function fetch_page_loop ::
  "real \<Rightarrow> (nat \<Rightarrow> attempt_outcome) \<Rightarrow> nat \<Rightarrow> real \<Rightarrow> nat \<Rightarrow> py_error option \<Rightarrow> real list \<Rightarrow>
   (py_error + api_response) \<times> nat \<times> real list" where
  "fetch_page_loop sleep_limit server retries backoff attempt last_error slept =
     (if attempt < retries + 1
      then (case server attempt of
              Body data final_url \<Rightarrow>
                (Inr \<lparr>records = extract_records data, source_url = final_url\<rparr>,
                 attempt + 1, slept)
            | Status status \<Rightarrow>
                if status \<in> {429, 500, 502, 503, 504} \<and> attempt < retries
                then (if 1024 \<le> attempt then (Inl OverflowError, attempt + 1, slept)
                      else (let delay = backoff * 2 ^ attempt;
                                delay = (if status = 429 then max delay 10 else delay)
                            in if sleep_limit < delay
                               then (Inl OverflowError, attempt + 1, slept)
                               else fetch_page_loop sleep_limit server retries backoff
                                      (attempt + 1) (Some (HTTPStatusError status))
                                      (slept @ [delay])))
                else (Inl (HTTPStatusError status), attempt + 1, slept)
            | Transport \<Rightarrow>
                if attempt < retries
                then (if 1024 \<le> attempt then (Inl OverflowError, attempt + 1, slept)
                      else if sleep_limit < backoff * 2 ^ attempt
                      then (Inl OverflowError, attempt + 1, slept)
                      else fetch_page_loop sleep_limit server retries backoff (attempt + 1)
                             (Some RequestError) (slept @ [backoff * 2 ^ attempt]))
                else (Inl RequestError, attempt + 1, slept)
            | Uncaught msg \<Rightarrow> (Inl (OtherError msg), attempt + 1, slept))
      else (case last_error of
              Some e \<Rightarrow> (Inl e, attempt, slept)
            | None \<Rightarrow> (Inl (RuntimeError ''SBIR API request failed''), attempt, slept)))"
  by pat_completeness auto
termination
  by (relation "measure (\<lambda>(sleep_limit, server, retries, backoff, attempt, last_error, slept).
                  retries + 1 - attempt)") auto

definition fetch_page ::
  "real \<Rightarrow> (nat \<Rightarrow> attempt_outcome) \<Rightarrow> app_config \<Rightarrow> (py_error + api_response) \<times> nat \<times> real list" where
  "fetch_page sleep_limit server config =
     (let retries = nat (max 0 (retry_max (match config)));
          backoff = max (1 / 10) (retry_backoff_seconds (match config))
      in fetch_page_loop sleep_limit server retries backoff 0 None [])"


fun attempt_result :: "attempt_outcome \<Rightarrow> py_error + api_response" where
  "attempt_result (Body data final_url) =
     Inr \<lparr>records = extract_records data, source_url = final_url\<rparr>"
| "attempt_result (Status status) = Inl (HTTPStatusError status)"
| "attempt_result Transport = Inl RequestError"
| "attempt_result (Uncaught msg) = Inl (OtherError msg)"

fun retryable :: "attempt_outcome \<Rightarrow> bool" where
  "retryable (Status status) = (status \<in> {429, 500, 502, 503, 504})"
| "retryable Transport = True"
| "retryable other = False"

definition retry_delay :: "real \<Rightarrow> attempt_outcome \<Rightarrow> nat \<Rightarrow> real" where
  "retry_delay backoff outcome attempt =
     (if outcome = Status 429 then max (backoff * 2 ^ attempt) 10 else backoff * 2 ^ attempt)"

definition sleep_refused :: "real \<Rightarrow> real \<Rightarrow> attempt_outcome \<Rightarrow> nat \<Rightarrow> bool" where
  "sleep_refused sleep_limit backoff outcome attempt =
     (1024 \<le> attempt \<or> sleep_limit < retry_delay backoff outcome attempt)"

section \<open>Identifiers of the primary source\<close>

text \<open>\<open>sbir._build_id\<close>: the truthy parts joined by \<open>::\<close>, or \<open>unknown\<close>.\<close>

definition build_id :: "string option \<Rightarrow> string option \<Rightarrow> string option \<Rightarrow> string" where
  "build_id solicitation_no topic_no subtopic =
     (let parts = map the (filter opt_truthy [solicitation_no, topic_no, subtopic])
      in if parts \<noteq> [] then str_join ''::'' parts else ''unknown'')"

section \<open>Sample inputs\<close>

text \<open>
  The defaults of \<open>config.py\<close>, and opportunities as the primary adapter builds them for
  a solicitation without topics (only the title and the identifier vary).
\<close>

definition default_match_config :: match_config where
  "default_match_config =
     \<lparr>match_keywords = [], exclude_keywords = [], min_score = 1, agencies = [],
      always_include_sources = [],
      match_fields = [''solicitation_title'', ''topic_title'', ''topic_description'',
                      ''subtopic_title'', ''subtopic_description''],
      retry_max = 3, retry_backoff_seconds = 2\<rparr>"

definition default_notify_config :: notify_config where
  "default_notify_config =
     \<lparr>discord_webhook_url = None, discord_bot_token = None, discord_channel_id = None,
      discord_client_enabled = True, dry_run = False\<rparr>"

definition default_config :: app_config where
  "default_config =
     \<lparr>match = default_match_config, notify = default_notify_config,
      sam = \<lparr>enabled = False, fallback_only = True\<rparr>,
      rss = \<lparr>enabled = True, fallback_only = True\<rparr>,
      dod = \<lparr>enabled = True, fallback_only = True\<rparr>,
      nsf = \<lparr>enabled = True, fallback_only = True\<rparr>,
      nih = \<lparr>enabled = True, fallback_only = True\<rparr>,
      fail_on_no_results = False\<rparr>"

text \<open>
  Some of what \<open>getattr\<close> finds on an \<open>Opportunity\<close> under a name that is not a field:
  its class, the tuple of the slot names, the name of the module.  The table is not
  complete; any other name is looked up as absent.
\<close>

definition sample_class_attrs :: "string \<Rightarrow> attr" where
  "sample_class_attrs name =
     (if name = ''__class__'' then AObject True
      else if name = ''__slots__'' then AObject True
      else if name = ''__module__'' then AStr ''sbir_search.models''
      else ANone)"

definition sample_opportunity :: "string \<Rightarrow> string \<Rightarrow> opportunity" where
  "sample_opportunity ident title =
     \<lparr>opp_id = ident, source = Some ''sbir'', solicitation_title = title,
      solicitation_number = None, agency = Some ''DOD'', branch = None, open_date = None,
      close_date = None, topic_title = None, topic_number = None,
      topic_description = None, subtopic_title = None, subtopic_description = None,
      url = None, raw = []\<rparr>"

definition sample_match :: "string \<Rightarrow> match" where
  "sample_match ident =
     \<lparr>opportunity = sample_opportunity ident ''robotics research'', score = 1,
      matched_keywords = [''robotics''], matched_text = ''robotics research''\<rparr>"

text \<open>A profile with one long keyword, and the two opportunities of the end-to-end scenario.\<close>

definition sample_config :: app_config where
  "sample_config = default_config\<lparr>match := default_match_config\<lparr>match_keywords := [''robotics'']\<rparr>\<rparr>"

definition sample_opportunities :: "opportunity list" where
  "sample_opportunities =
     [sample_opportunity ''a'' ''AI robotics research'', sample_opportunity ''b'' ''unrelated topic'']"

text \<open>
  A run in which the primary source returns nothing, the DARPA source (enabled, not
  fallback-only) raises, and the other sources would return nothing; SAM is enabled
  as a fallback.
\<close>

definition cascade_config :: app_config where
  "cascade_config =
     default_config\<lparr>dod := \<lparr>enabled = True, fallback_only = False\<rparr>,
                    sam := \<lparr>enabled = True, fallback_only = True\<rparr>\<rparr>"

definition cascade_fetch :: "adapter \<Rightarrow> fetch_result" where
  "cascade_fetch a = (if a = DodDarpa then Raised ''timeout'' else Fetched [])"








text \<open>
  A run of the whole pipeline: only the primary source has records (the two sample
  opportunities), and no delivery succeeds.  \<open>webhook_config\<close> has a webhook URL,
  \<open>sample_config\<close> has no credential at all.
\<close>

definition sample_fetch :: "adapter \<Rightarrow> fetch_result" where
  "sample_fetch a = (if a = Sbir then Fetched sample_opportunities else Fetched [])"

definition dead_transport :: transport where
  "dead_transport =
     \<lparr>webhook_post = (\<lambda>i webhook_url p. Some (OtherError ''connection refused'')),
      discord_importable = False,
      discord_send = (\<lambda>i token channel_id content. False),
      bot_http_post = (\<lambda>i token channel_id p. Some (RuntimeError ''Discord API error 401''))\<rparr>"

definition webhook_config :: app_config where
  "webhook_config =
     sample_config\<lparr>notify := default_notify_config\<lparr>discord_webhook_url := Some ''https://discord.example/hook''\<rparr>\<rparr>"

definition seen_a_file :: state_file where
  "seen_a_file = Parsed (JObj [(''seen_ids'', JArr [JStr ''a''])])"

text \<open>
  A whitelisted source and two exclude keywords, the first of them the empty string;
  a record whose title holds the second one.
\<close>

definition masked_exclude_config :: app_config where
  "masked_exclude_config =
     default_config\<lparr>match := default_match_config
       \<lparr>exclude_keywords := [[], ''weapon''], always_include_sources := [''sbir'']\<rparr>\<rparr>"

definition weapon_opportunity :: opportunity where
  "weapon_opportunity = sample_opportunity ''w'' ''weapon systems''"

text \<open>What the matching engine returns for the two sample opportunities under \<open>sample_config\<close>.\<close>

definition sample_result :: match_result where
  "sample_result =
     \<lparr>matches =
        [\<lparr>opportunity = sample_opportunity ''a'' ''AI robotics research'', score = 1,
          matched_keywords = [''robotics''], matched_text = ''ai robotics research''\<rparr>],
      skipped = 1,
      evaluations =
        [\<lparr>ev_opportunity = sample_opportunity ''a'' ''AI robotics research'', ev_score = 1,
          ev_matched_keywords = [''robotics''], ev_reason = None\<rparr>,
         \<lparr>ev_opportunity = sample_opportunity ''b'' ''unrelated topic'', ev_score = 0,
          ev_matched_keywords = [], ev_reason = Some ''score<1''\<rparr>]\<rparr>"

section \<open>Theorems\<close>

subsection \<open>Dedup filter\<close>

lemma filter_new_filter:
  "filter_new ms st = filter (\<lambda>m. KStr (opp_id (opportunity m)) \<notin> seen_ids st) ms"
  by (induction ms) auto

text \<open>
  C6.  \<open>_filter_new\<close> returns exactly the list of the matches whose opportunity id is
  not in \<open>state.seen_ids\<close>, in input order and with their multiplicity: it is the
  filter of the input list by that test.  So the result is a subsequence of the input,
  a match is in it exactly when it is in the input and its id is not seen, it is empty
  when every id is seen, and it is the input when no id is seen.
\<close>

theorem filter_new_spec:
  "filter_new ms st = filter (\<lambda>m. KStr (opp_id (opportunity m)) \<notin> seen_ids st) ms
   \<and> subseq (filter_new ms st) ms
   \<and> (\<forall>m. m \<in> set (filter_new ms st) \<longleftrightarrow> m \<in> set ms \<and> KStr (opp_id (opportunity m)) \<notin> seen_ids st)
   \<and> ((\<forall>m \<in> set ms. KStr (opp_id (opportunity m)) \<in> seen_ids st) \<longrightarrow> filter_new ms st = [])
   \<and> ((\<forall>m \<in> set ms. KStr (opp_id (opportunity m)) \<notin> seen_ids st) \<longrightarrow> filter_new ms st = ms)"
proof (intro conjI allI impI)
  show "filter_new ms st = filter (\<lambda>m. KStr (opp_id (opportunity m)) \<notin> seen_ids st) ms"
    by (rule filter_new_filter)
next
  show "subseq (filter_new ms st) ms"
    by (simp add: filter_new_filter)
next
  fix m
  show "m \<in> set (filter_new ms st) \<longleftrightarrow> m \<in> set ms \<and> KStr (opp_id (opportunity m)) \<notin> seen_ids st"
    by (auto simp: filter_new_filter)
next
  assume "\<forall>m \<in> set ms. KStr (opp_id (opportunity m)) \<in> seen_ids st"
  then show "filter_new ms st = []"
    by (induction ms) auto
next
  assume "\<forall>m \<in> set ms. KStr (opp_id (opportunity m)) \<notin> seen_ids st"
  then show "filter_new ms st = ms"
    by (induction ms) auto
qed

theorem filter_new_spec_witness:
  "filter_new [sample_match ''a'', sample_match ''b''] \<lparr>seen_ids = {KStr ''a'', KStr ''b''}\<rparr> = []
   \<and> filter_new [sample_match ''a'', sample_match ''b''] \<lparr>seen_ids = {KStr ''c''}\<rparr>
       = [sample_match ''a'', sample_match ''b'']
   \<and> subseq (filter_new [sample_match ''a'', sample_match ''b''] \<lparr>seen_ids = {KStr ''a''}\<rparr>)
        [sample_match ''a'', sample_match ''b'']
   \<and> filter_new [sample_match ''a'', sample_match ''b'', sample_match ''a''] \<lparr>seen_ids = {KStr ''b''}\<rparr>
       = [sample_match ''a'', sample_match ''a'']"
  using filter_new_spec [of "[sample_match ''a'', sample_match ''b'', sample_match ''a'']" "\<lparr>seen_ids = {KStr ''b''}\<rparr>"]
        filter_new_spec [of "[sample_match ''a'', sample_match ''b'']" "\<lparr>seen_ids = {KStr ''a'', KStr ''b''}\<rparr>"]
        filter_new_spec [of "[sample_match ''a'', sample_match ''b'']" "\<lparr>seen_ids = {KStr ''c''}\<rparr>"]
        filter_new_spec [of "[sample_match ''a'', sample_match ''b'']" "\<lparr>seen_ids = {KStr ''a''}\<rparr>"]
  by (simp add: sample_match_def sample_opportunity_def)

subsection \<open>Keyword patterns\<close>

text \<open>
  The pattern source \<open>re.escape\<close> gives for a string denotes that string, character by
  character; a sequence of literals is found in a text exactly where the text holds
  the same characters up to case.
\<close>

lemma re_parse_plain: "c \<noteq> bslash \<Longrightarrow> re_parse (c # rest) = Lit c # re_parse rest"
  by (cases rest) simp_all

lemma re_parse_escaped: "c \<noteq> CHR ''b'' \<Longrightarrow> re_parse (bslash # c # rest) = Lit c # re_parse rest"
  by simp

lemma re_special_not_b: "re_special c \<Longrightarrow> c \<noteq> CHR ''b''"
  by (auto simp: re_special_def)

lemma not_special_not_bslash: "\<not> re_special c \<Longrightarrow> c \<noteq> bslash"
  by (auto simp: re_special_def bslash_def)

lemma re_parse_escape: "re_parse (re_escape kw) = map Lit kw"
proof (induction kw)
  case Nil
  then show ?case by simp
next
  case (Cons c kw)
  show ?case
  proof (cases "re_special c")
    case True
    then show ?thesis
      using Cons.IH re_parse_escaped [OF re_special_not_b [OF True]] by simp
  next
    case False
    then show ?thesis
      using Cons.IH re_parse_plain [OF not_special_not_bslash [OF False]] by simp
  qed
qed

lemma literal_match_here:
  "re_match_here (map Lit kw) prev s \<longleftrightarrow>
     (\<exists>mid suf. s = mid @ suf \<and> str_lower mid = str_lower kw)"
proof (induction kw arbitrary: prev s)
  case Nil
  then show ?case by (simp add: str_lower_def)
next
  case (Cons c kw)
  show ?case
  proof (cases s)
    case Nil
    then show ?thesis by (simp add: str_lower_def)
  next
    case (Cons d s')
    have "(\<exists>mid suf. d # s' = mid @ suf \<and> str_lower mid = str_lower (c # kw))
          \<longleftrightarrow> (lower_char c = lower_char d
               \<and> (\<exists>mid suf. s' = mid @ suf \<and> str_lower mid = str_lower kw))"
    proof
      assume "\<exists>mid suf. d # s' = mid @ suf \<and> str_lower mid = str_lower (c # kw)"
      then obtain mid suf where ms: "d # s' = mid @ suf" "str_lower mid = str_lower (c # kw)"
        by blast
      from ms(2) obtain m mid' where mid: "mid = m # mid'"
        by (cases mid) (simp_all add: str_lower_def)
      with ms show "lower_char c = lower_char d
               \<and> (\<exists>mid suf. s' = mid @ suf \<and> str_lower mid = str_lower kw)"
        by (auto simp: str_lower_def)
    next
      assume "lower_char c = lower_char d
               \<and> (\<exists>mid suf. s' = mid @ suf \<and> str_lower mid = str_lower kw)"
      then obtain mid suf where "lower_char c = lower_char d" "s' = mid @ suf"
        "str_lower mid = str_lower kw" by blast
      then have "d # s' = (d # mid) @ suf \<and> str_lower (d # mid) = str_lower (c # kw)"
        by (simp add: str_lower_def)
      then show "\<exists>mid suf. d # s' = mid @ suf \<and> str_lower mid = str_lower (c # kw)"
        by blast
    qed
    with Cons Cons.IH [of "Some d" s'] show ?thesis by simp
  qed
qed

lemma literal_search_from:
  "re_search_from (map Lit kw) prev s \<longleftrightarrow>
     (\<exists>pre mid suf. s = pre @ mid @ suf \<and> str_lower mid = str_lower kw)"
proof (induction s arbitrary: prev)
  case Nil
  then show ?case by (auto simp: literal_match_here)
next
  case (Cons d s)
  have "(\<exists>pre mid suf. d # s = pre @ mid @ suf \<and> str_lower mid = str_lower kw)
        \<longleftrightarrow> (\<exists>mid suf. d # s = mid @ suf \<and> str_lower mid = str_lower kw)
            \<or> (\<exists>pre mid suf. s = pre @ mid @ suf \<and> str_lower mid = str_lower kw)"
  proof
    assume "\<exists>pre mid suf. d # s = pre @ mid @ suf \<and> str_lower mid = str_lower kw"
    then obtain pre mid suf where p: "d # s = pre @ mid @ suf" "str_lower mid = str_lower kw"
      by blast
    show "(\<exists>mid suf. d # s = mid @ suf \<and> str_lower mid = str_lower kw)
            \<or> (\<exists>pre mid suf. s = pre @ mid @ suf \<and> str_lower mid = str_lower kw)"
    proof (cases pre)
      case Nil
      with p show ?thesis by auto
    next
      case (Cons x pre')
      with p have "s = pre' @ mid @ suf" by simp
      with p(2) show ?thesis by blast
    qed
  next
    assume "(\<exists>mid suf. d # s = mid @ suf \<and> str_lower mid = str_lower kw)
            \<or> (\<exists>pre mid suf. s = pre @ mid @ suf \<and> str_lower mid = str_lower kw)"
    then show "\<exists>pre mid suf. d # s = pre @ mid @ suf \<and> str_lower mid = str_lower kw"
    proof
      assume "\<exists>mid suf. d # s = mid @ suf \<and> str_lower mid = str_lower kw"
      then obtain mid suf where "d # s = [] @ mid @ suf" "str_lower mid = str_lower kw" by auto
      then show ?thesis by blast
    next
      assume "\<exists>pre mid suf. s = pre @ mid @ suf \<and> str_lower mid = str_lower kw"
      then obtain pre mid suf where "d # s = (d # pre) @ mid @ suf" "str_lower mid = str_lower kw"
        by auto
      then show ?thesis by blast
    qed
  qed
  with Cons.IH [of "Some d"] show ?case by (simp add: literal_match_here)
qed

text \<open>
  So a keyword that is not short and alphanumeric matches as a case-insensitive
  substring; and a short alphanumeric keyword matches exactly the texts that hold the
  keyword between two copies of the two characters backslash and \<open>b\<close>.
\<close>

lemma escaped_pattern_search:
  "pattern_search (re_escape kw) s \<longleftrightarrow>
     (\<exists>pre mid suf. s = pre @ mid @ suf \<and> str_lower mid = str_lower kw)"
  by (simp add: pattern_search_def re_parse_escape literal_search_from)

lemma long_keyword_is_substring_match:
  assumes "str_isascii kw" and "str_isascii s"
    and "\<not> (str_isalnum kw \<and> length kw \<le> 3)"
  shows "pattern_search (compile_keyword kw) s \<longleftrightarrow>
     (\<exists>pre mid suf. s = pre @ mid @ suf \<and> str_lower mid = str_lower kw)"
  using assms by (auto simp: compile_keyword_def Let_def escaped_pattern_search)

lemma short_keyword_is_literal_match:
  assumes "str_isascii kw" and "str_isascii s"
    and "str_isalnum kw \<and> length kw \<le> 3"
  shows "pattern_search (compile_keyword kw) s \<longleftrightarrow>
     (\<exists>pre mid suf. s = pre @ mid @ suf
        \<and> str_lower mid = str_lower ([bslash, CHR ''b''] @ kw @ [bslash, CHR ''b'']))"
proof -
  have esc: "re_escape (xs @ ys) = re_escape xs @ re_escape ys" for xs ys
    by (induction xs) simp_all
  have "compile_keyword kw = re_escape ([bslash, CHR ''b''] @ kw @ [bslash, CHR ''b''])"
    using assms by (simp add: compile_keyword_def Let_def esc re_special_def bslash_def)
  then show ?thesis by (simp only: escaped_pattern_search)
qed

text \<open>
  The word-boundary pattern \<^verbatim>\<open>\bAI\b\<close> (one backslash before each \<open>b\<close>) finds the word
  in \<open>AI research\<close> and not in \<open>pAId\<close>.
\<close>

lemma word_boundary_pattern_behaviour:
  "pattern_search ([bslash] @ ''bAI'' @ [bslash] @ ''b'') ''AI research''
   \<and> \<not> pattern_search ([bslash] @ ''bAI'' @ [bslash] @ ''b'') ''pAId''"
  by code_simp

text \<open>
  C1.  For the keyword \<open>AI\<close> the pattern \<open>_compile_keyword\<close> builds is not that one: its
  source has two backslashes before each \<open>b\<close>, which denote a literal backslash
  followed by the letter \<open>b\<close>.  The compiled pattern does not match \<open>AI research\<close>; it
  matches a text that holds the six characters \<^verbatim>\<open>\bAI\b\<close> themselves.
\<close>

theorem short_keyword_pattern_is_literal:
  "compile_keyword ''AI'' = [bslash, bslash, CHR ''b'', CHR ''A'', CHR ''I'', bslash, bslash, CHR ''b'']
   \<and> re_parse (compile_keyword ''AI'')
       = [Lit bslash, Lit CHR ''b'', Lit CHR ''A'', Lit CHR ''I'', Lit bslash, Lit CHR ''b'']
   \<and> \<not> pattern_search (compile_keyword ''AI'') ''AI research''
   \<and> pattern_search (compile_keyword ''AI'') ([bslash] @ ''bAI'' @ [bslash] @ ''b research'')"
  by code_simp

text \<open>
  In the end-to-end scenario (keyword \<open>AI\<close>, minimum score 1) the record titled
  \<open>AI robotics research\<close> is therefore skipped with score 0.
\<close>

lemma short_keyword_scenario_unmatched:
  "match_opportunities sample_class_attrs sample_opportunities
     (default_config\<lparr>match := default_match_config\<lparr>match_keywords := [''AI'']\<rparr>\<rparr>)
   = Inr \<lparr>matches = [], skipped = 2,
          evaluations =
            [\<lparr>ev_opportunity = sample_opportunity ''a'' ''AI robotics research'', ev_score = 0,
              ev_matched_keywords = [], ev_reason = Some ''score<1''\<rparr>,
             \<lparr>ev_opportunity = sample_opportunity ''b'' ''unrelated topic'', ev_score = 0,
              ev_matched_keywords = [], ev_reason = Some ''score<1''\<rparr>]\<rparr>"
  by code_simp

subsection \<open>Counting invariant of the matching engine\<close>

lemma record_verdict_counts:
  "\<exists>e. evaluations (record_verdict config acc op1 v) = evaluations acc @ [e] \<and> ev_opportunity e = op1"
  "length (matches (record_verdict config acc op1 v)) + skipped (record_verdict config acc op1 v)
     = Suc (length (matches acc) + skipped acc)"
  by (cases v; simp add: record_verdict_def)+

lemma match_step_counts:
  assumes "match_step class_attrs config kwds excludes wl compiled cex acc op1 = Inr acc'"
  shows "\<exists>e. evaluations acc' = evaluations acc @ [e] \<and> ev_opportunity e = op1"
    and "length (matches acc') + skipped acc' = Suc (length (matches acc) + skipped acc)"
  using assms record_verdict_counts [of config acc op1]
  by (auto simp: match_step_def split: sum.splits)

lemma match_loop_counts:
  assumes "match_loop (match_step class_attrs config kwds excludes wl compiled cex) opps acc = Inr r"
  shows "map ev_opportunity (evaluations r) = map ev_opportunity (evaluations acc) @ opps
         \<and> length (matches r) + skipped r = length (matches acc) + skipped acc + length opps"
  using assms
proof (induction opps arbitrary: acc)
  case Nil
  then show ?case by simp
next
  case (Cons op1 opps)
  from Cons.prems obtain acc' where
    step: "match_step class_attrs config kwds excludes wl compiled cex acc op1 = Inr acc'" and
    rest: "match_loop (match_step class_attrs config kwds excludes wl compiled cex) opps acc' = Inr r"
    by (auto split: sum.splits)
  from match_step_counts [OF step] Cons.IH [OF rest] show ?case
    by auto
qed

text \<open>
  A field of \<open>string_fields\<close> holds a string or \<open>None\<close>, so \<open>build_text\<close> returns when only
  such fields are configured, and with it the whole engine.
\<close>

lemma attr_of_joinable: "attr_of v \<noteq> ADict d" "attr_of v \<noteq> AObject b"
  by (cases v; simp add: attr_of_def)+

lemma getattr_string_field:
  assumes "field_name \<in> set string_fields"
  shows "getattr_opp class_attrs op1 field_name \<noteq> ADict d"
    and "getattr_opp class_attrs op1 field_name \<noteq> AObject b"
  using assms unfolding string_fields_def
  by (auto simp: getattr_opp_def attr_of_joinable)

lemma join_fields_total:
  "set fs \<subseteq> set string_fields \<Longrightarrow> \<exists>ss. join_fields (collect_fields class_attrs op1 fs) = Inr ss"
proof (induction fs)
  case Nil
  then show ?case by simp
next
  case (Cons f fs)
  then obtain ss where ss: "join_fields (collect_fields class_attrs op1 fs) = Inr ss" by auto
  from Cons.prems have f: "f \<in> set string_fields" by simp
  show ?case
  proof (cases "getattr_opp class_attrs op1 f")
    case (AStr s)
    with ss show ?thesis by (simp add: Let_def)
  next
    case ANone
    with ss show ?thesis by (simp add: Let_def attr_truthy_def)
  next
    case (ADict d)
    with getattr_string_field(1) [OF f, of class_attrs op1 d] show ?thesis by simp
  next
    case (AObject b)
    with getattr_string_field(2) [OF f, of class_attrs op1 b] show ?thesis by simp
  qed
qed

lemma build_text_total:
  assumes "set (match_fields (match config)) \<subseteq> set string_fields"
  shows "\<exists>t. build_text class_attrs op1 config = Inr t"
proof -
  from join_fields_total [OF assms] obtain ss where
    "join_fields (collect_fields class_attrs op1 (match_fields (match config))) = Inr ss"
    by blast
  then show ?thesis by (simp add: build_text_def)
qed

lemma verdict_of_total:
  assumes "set (match_fields (match config)) \<subseteq> set string_fields"
  shows "\<exists>v. verdict_of class_attrs config kwds excludes wl compiled cex op1 = Inr v"
proof -
  from build_text_total [OF assms] obtain t where "build_text class_attrs op1 config = Inr t"
    by blast
  then show ?thesis by (simp add: verdict_of_def Let_def)
qed

lemma match_loop_total:
  assumes "set (match_fields (match config)) \<subseteq> set string_fields"
  shows "\<exists>r. match_loop (match_step class_attrs config kwds excludes wl compiled cex) opps acc
              = Inr r"
proof (induction opps arbitrary: acc)
  case Nil
  then show ?case by simp
next
  case (Cons op1 opps)
  from verdict_of_total [OF assms] obtain v where
    "verdict_of class_attrs config kwds excludes wl compiled cex op1 = Inr v" by blast
  with Cons.IH show ?case by (simp add: match_step_def)
qed

text \<open>
  With another match field the engine can raise: \<open>"\n".join\<close> raises \<open>TypeError\<close> on the
  non-empty \<open>raw\<close> dictionary, and on the class object that \<open>getattr\<close> finds under
  \<open>__class__\<close>.
\<close>

lemma match_raises_on_other_fields:
  "match_opportunities sample_class_attrs sample_opportunities
     (default_config\<lparr>match := default_match_config\<lparr>match_fields := [''__class__'']\<rparr>\<rparr>)
   = Inl TypeError"
  "match_opportunities sample_class_attrs
     [(sample_opportunity ''a'' ''AI robotics research'')\<lparr>raw := [(''a'', JNull)]\<rparr>]
     (default_config\<lparr>match := default_match_config\<lparr>match_fields := [''raw'']\<rparr>\<rparr>)
   = Inl TypeError"
  by code_simp+

text \<open>
  C10.  Whenever \<open>match_opportunities\<close> returns, its result has one \<open>Evaluation\<close> per
  input opportunity, in input order, and the accepted matches and the skipped count
  add up to the number of inputs.  It returns for every input list when the configured
  match fields are among the string fields of the dataclass.
\<close>

theorem match_counting_invariant:
  "(\<forall>r. match_opportunities class_attrs opps config = Inr r \<longrightarrow>
       length (evaluations r) = length opps
       \<and> map ev_opportunity (evaluations r) = opps
       \<and> length (matches r) + skipped r = length opps)
   \<and> (set (match_fields (match config)) \<subseteq> set string_fields \<longrightarrow>
       (\<exists>r. match_opportunities class_attrs opps config = Inr r))"
proof (intro conjI allI impI)
  fix r
  assume r: "match_opportunities class_attrs opps config = Inr r"
  then have inv: "map ev_opportunity (evaluations r) = opps
      \<and> length (matches r) + skipped r = length opps"
    using match_loop_counts [of class_attrs config _ _ _ _ _ opps
            "\<lparr>matches = [], skipped = 0, evaluations = []\<rparr>" r]
    by (simp add: match_opportunities_def Let_def)
  then show "map ev_opportunity (evaluations r) = opps"
    and "length (matches r) + skipped r = length opps" by simp_all
  from inv have "length (map ev_opportunity (evaluations r)) = length opps" by simp
  then show "length (evaluations r) = length opps" by simp
next
  assume "set (match_fields (match config)) \<subseteq> set string_fields"
  then show "\<exists>r. match_opportunities class_attrs opps config = Inr r"
    using match_loop_total by (simp add: match_opportunities_def Let_def)
qed

lemma sample_run_matches:
  "match_opportunities sample_class_attrs sample_opportunities sample_config =
     Inr \<lparr>matches =
            [\<lparr>opportunity = sample_opportunity ''a'' ''AI robotics research'', score = 1,
              matched_keywords = [''robotics''], matched_text = ''ai robotics research''\<rparr>],
          skipped = 1,
          evaluations =
            [\<lparr>ev_opportunity = sample_opportunity ''a'' ''AI robotics research'', ev_score = 1,
              ev_matched_keywords = [''robotics''], ev_reason = None\<rparr>,
             \<lparr>ev_opportunity = sample_opportunity ''b'' ''unrelated topic'', ev_score = 0,
              ev_matched_keywords = [], ev_reason = Some ''score<1''\<rparr>]\<rparr>"
  by code_simp

theorem match_counting_invariant_witness:
  "set (match_fields (match sample_config)) \<subseteq> set string_fields
   \<and> (\<exists>r. match_opportunities sample_class_attrs sample_opportunities sample_config = Inr r
          \<and> length (evaluations r) = 2
          \<and> map ev_opportunity (evaluations r) = sample_opportunities
          \<and> length (matches r) = 1 \<and> skipped r = 1)"
proof -
  have h: "set (match_fields (match sample_config)) \<subseteq> set string_fields"
    by (simp add: sample_config_def default_config_def default_match_config_def
          string_fields_def)
  from match_counting_invariant [of sample_class_attrs sample_opportunities sample_config]
    h sample_run_matches
  show ?thesis by (simp add: sample_opportunities_def)
qed

subsection \<open>Loading the dedup state\<close>

text \<open>
  \<open>load_state\<close> gives the empty state for a missing file, for text that does not parse,
  for JSON that is not an object and for an object without \<open>seen_ids\<close>; a list of
  strings is loaded as the set of its elements.
\<close>

lemma load_state_degrades:
  "load_state Missing = Inr \<lparr>seen_ids = {}\<rparr>"
  "load_state Unparsable = Inr \<lparr>seen_ids = {}\<rparr>"
  "\<not> is_dict data \<Longrightarrow> load_state (Parsed data) = Inr \<lparr>seen_ids = {}\<rparr>"
  "map_of (rev members) ''seen_ids'' = None \<Longrightarrow> load_state (Parsed (JObj members)) = Inr \<lparr>seen_ids = {}\<rparr>"
  by (auto simp: load_state_def is_dict_def dict_get_def split: json.splits)

lemma load_state_string_list:
  "load_state (Parsed (JObj [(''seen_ids'', JArr (map JStr ids))])) = Inr \<lparr>seen_ids = KStr ` set ids\<rparr>"
proof -
  have add: "set_add (KStr s) ks = insert (KStr s) ks" for s ks
    by (auto simp: set_add_def py_eq_def key_num_def)
  have "set_of_list (map JStr ids) ks = Inr (ks \<union> KStr ` set ids)" for ks
    by (induction ids arbitrary: ks) (auto simp: add)
  then show ?thesis by (simp add: load_state_def dict_get_def)
qed

text \<open>
  A \<open>seen_ids\<close> member that is a string or a list of numbers is not rejected either:
  its characters or its numbers become the seen set (of \<open>true\<close> and 1 the first).
\<close>

lemma load_state_keeps_malformed_members:
  "load_state (Parsed (JObj [(''seen_ids'', JStr ''ab'')])) = Inr \<lparr>seen_ids = {KStr ''a'', KStr ''b''}\<rparr>"
  "load_state (Parsed (JObj [(''seen_ids'', JArr [JInt 1, JInt 2])])) = Inr \<lparr>seen_ids = {KInt 2, KInt 1}\<rparr>"
  "load_state (Parsed (JObj [(''seen_ids'', JArr [JBool True, JInt 1])])) = Inr \<lparr>seen_ids = {KBool True}\<rparr>"
  by (simp_all add: load_state_def dict_get_def set_add_def py_eq_def key_num_def)

text \<open>
  C7.  \<open>load_state\<close> raises \<open>TypeError\<close> on a state file that holds a JSON object whose
  \<open>seen_ids\<close> member is a number, \<open>null\<close>, or a list with a list in it: \<open>set(...)\<close> is
  applied to the member outside the \<open>try\<close> block.
\<close>

theorem load_state_raises_on_malformed_seen_ids:
  "load_state (Parsed (JObj [(''seen_ids'', JInt 5)])) = Inl TypeError
   \<and> load_state (Parsed (JObj [(''seen_ids'', JNull)])) = Inl TypeError
   \<and> load_state (Parsed (JObj [(''seen_ids'', JArr [JArr [JStr ''a'']])])) = Inl TypeError"
  by (simp add: load_state_def dict_get_def)

subsection \<open>Identifiers of the primary source\<close>

text \<open>
  C9.  \<open>_build_id\<close> gives every record without a solicitation number, topic number
  and subtopic title the id \<open>unknown\<close>, puts no source name before the key, and gives
  different triples of parts the same id.
\<close>

theorem build_id_not_unique_not_namespaced:
  "build_id None None None = ''unknown''
   \<and> build_id (Some ''N241'') None None = ''N241''
   \<and> build_id (Some ''N241'') (Some ''T1'') (Some ''Sensors'') = ''N241::T1::Sensors''
   \<and> build_id (Some ''A::B'') (Some ''C'') None = build_id (Some ''A'') (Some ''B::C'') None
   \<and> build_id (Some ''N241'') (Some ''T1'') None = build_id (Some ''N241'') None (Some ''T1'')"
  by (simp add: build_id_def opt_truthy_def)

subsection \<open>Aggregation orchestrator\<close>

lemma try_source_eq:
  "try_source fetch a st =
     (failed fetch a,
      st\<lparr>opportunities := opportunities st @ fetched fetch a,
         reports := reports st @
           (if failed fetch a then []
            else [\<lparr>rep_name = report_name a, rep_count = length (fetched fetch a)\<rparr>]),
         errors := errors st @ (if failed fetch a then [error_text fetch a] else []),
         calls := calls st @ [a]\<rparr>)"
  by (cases "fetch a") (simp_all add: try_source_def failed_def fetched_def error_text_def)

lemma guarded_flag: "fst (guarded_source c fetch a st) = (c \<and> failed fetch a)"
  by (simp add: guarded_source_def try_source_eq)

lemma guarded_calls: "calls (snd (guarded_source c fetch a st)) = calls st @ (if c then [a] else [])"
  by (simp add: guarded_source_def try_source_eq)

lemma try_source_flag: "fst (try_source fetch a st) = failed fetch a"
  by (simp add: try_source_eq)

lemma try_source_calls: "calls (snd (try_source fetch a st)) = calls st @ [a]"
  by (simp add: try_source_eq)

lemma collect_run_calls:
  "calls (collect_run config fetch) =
     [Sbir] @ (if primary_gate config fetch DodDarpa then [DodDarpa] else [])
            @ (if primary_gate config fetch NsfSeedfund then [NsfSeedfund] else [])
            @ (if primary_gate config fetch NihGuide then [NihGuide] else [])
            @ (if primary_gate config fetch GrantsRss then [GrantsRss] else [])
            @ (if sam_gate config fetch then [Sam] else [])"
  unfolding collect_run_def Let_def split_beta
  by (simp only: guarded_calls guarded_flag try_source_calls try_source_flag
        primary_gate_def sam_gate_def source_flags.simps append_assoc append_Nil
        collected.simps)






lemma collect_run_mem:
  "Sbir \<in> set (calls (collect_run config fetch))"
  "DodDarpa \<in> set (calls (collect_run config fetch)) \<longleftrightarrow> primary_gate config fetch DodDarpa"
  "NsfSeedfund \<in> set (calls (collect_run config fetch)) \<longleftrightarrow> primary_gate config fetch NsfSeedfund"
  "NihGuide \<in> set (calls (collect_run config fetch)) \<longleftrightarrow> primary_gate config fetch NihGuide"
  "GrantsRss \<in> set (calls (collect_run config fetch)) \<longleftrightarrow> primary_gate config fetch GrantsRss"
  "Sam \<in> set (calls (collect_run config fetch)) \<longleftrightarrow> sam_gate config fetch"
  by (simp_all add: collect_run_calls)

lemma subseq_optional: "subseq (if c then [a] else []) [a]"
  by simp

lemma collect_run_order: "subseq (calls (collect_run config fetch)) priority_order"
proof -
  have "subseq ([Sbir] @ (if primary_gate config fetch DodDarpa then [DodDarpa] else [])
            @ (if primary_gate config fetch NsfSeedfund then [NsfSeedfund] else [])
            @ (if primary_gate config fetch NihGuide then [NihGuide] else [])
            @ (if primary_gate config fetch GrantsRss then [GrantsRss] else [])
            @ (if sam_gate config fetch then [Sam] else []))
          ([Sbir] @ [DodDarpa] @ [NsfSeedfund] @ [NihGuide] @ [GrantsRss] @ [Sam])"
    by (intro list_emb_append_mono subseq_optional subseq_order.order_refl)
  then show ?thesis
    by (simp only: collect_run_calls priority_order_def append_Cons append_Nil)
qed

lemma primary_gate_spec:
  "primary_gate config fetch a \<longleftrightarrow> spec_executes config fetch [Sbir] a"
  by (auto simp: primary_gate_def spec_executes_def)

lemma failed_before_sam:
  "list_ex (failed fetch) (executed_before Sam (calls (collect_run config fetch))) \<longleftrightarrow>
     failed fetch Sbir
     \<or> (primary_gate config fetch GrantsRss \<and> failed fetch GrantsRss)
     \<or> (primary_gate config fetch DodDarpa \<and> failed fetch DodDarpa)
     \<or> (primary_gate config fetch NsfSeedfund \<and> failed fetch NsfSeedfund)
     \<or> (primary_gate config fetch NihGuide \<and> failed fetch NihGuide)"
  by (auto simp: executed_before_def priority_order_def collect_run_mem list_ex_iff)

text \<open>
  C2, as the code has it.  The adapters are called in the fixed priority order, the
  primary source always.  Each of the four sources DARPA, NSF, NIH and Grants.gov RSS
  is called exactly when it is enabled and it is not fallback-only or the primary
  source failed: of the adapters before it only the primary counts.  SAM, the last
  one, is called exactly when it is enabled and it is not fallback-only or some
  adapter called before it (the primary or a secondary) failed.
\<close>

theorem collect_fallback_rule:
  "subseq (calls (collect_run config fetch)) priority_order
   \<and> Sbir \<in> set (calls (collect_run config fetch))
   \<and> (DodDarpa \<in> set (calls (collect_run config fetch)) \<longleftrightarrow> spec_executes config fetch [Sbir] DodDarpa)
   \<and> (NsfSeedfund \<in> set (calls (collect_run config fetch)) \<longleftrightarrow> spec_executes config fetch [Sbir] NsfSeedfund)
   \<and> (NihGuide \<in> set (calls (collect_run config fetch)) \<longleftrightarrow> spec_executes config fetch [Sbir] NihGuide)
   \<and> (GrantsRss \<in> set (calls (collect_run config fetch)) \<longleftrightarrow> spec_executes config fetch [Sbir] GrantsRss)
   \<and> (Sam \<in> set (calls (collect_run config fetch)) \<longleftrightarrow>
        spec_executes config fetch (executed_before Sam (calls (collect_run config fetch))) Sam)"
proof -
  have "sam_gate config fetch \<longleftrightarrow>
        spec_executes config fetch (executed_before Sam (calls (collect_run config fetch))) Sam"
    unfolding spec_executes_def failed_before_sam sam_gate_def source_flags.simps by blast
  then show ?thesis
    by (simp add: collect_run_order collect_run_mem primary_gate_spec)
qed

lemma cascade_calls: "calls (collect_run cascade_config cascade_fetch) = [Sbir, DodDarpa, Sam]"
  by (simp add: collect_run_calls primary_gate_def sam_gate_def cascade_config_def
        cascade_fetch_def default_config_def failed_def)

theorem collect_fallback_rule_witness:
  "calls (collect_run cascade_config cascade_fetch) = [Sbir, DodDarpa, Sam]
   \<and> spec_executes cascade_config cascade_fetch [Sbir] DodDarpa
   \<and> \<not> spec_executes cascade_config cascade_fetch [Sbir] NsfSeedfund
   \<and> spec_executes cascade_config cascade_fetch [Sbir, DodDarpa] Sam"
  using collect_fallback_rule [of cascade_config cascade_fetch]
  by (simp add: cascade_calls executed_before_def priority_order_def)

text \<open>
  The rule with "at least one adapter that executed strictly before it" fails for
  the NSF source in that run: it is enabled and fallback-only, the DARPA source was
  called before its turn and failed, and it is not called.
\<close>

theorem cascade_skips_later_fallback:
  "enabled (nsf cascade_config) \<and> fallback_only (nsf cascade_config)
   \<and> executed_before NsfSeedfund (calls (collect_run cascade_config cascade_fetch)) = [Sbir, DodDarpa]
   \<and> failed cascade_fetch DodDarpa
   \<and> spec_executes cascade_config cascade_fetch
        (executed_before NsfSeedfund (calls (collect_run cascade_config cascade_fetch))) NsfSeedfund
   \<and> NsfSeedfund \<notin> set (calls (collect_run cascade_config cascade_fetch))"
proof -
  have eb: "executed_before NsfSeedfund [Sbir, DodDarpa, Sam] = [Sbir, DodDarpa]"
    by (simp add: executed_before_def priority_order_def)
  have flags: "enabled (nsf cascade_config) \<and> fallback_only (nsf cascade_config)"
    by (simp add: cascade_config_def default_config_def)
  have down: "failed cascade_fetch DodDarpa"
    by (simp add: cascade_fetch_def failed_def)
  show ?thesis
    unfolding cascade_calls eb using flags down by (simp add: spec_executes_def)
qed








subsection \<open>Retries of a page fetch\<close>

text \<open>
  The loop from any attempt on.  It ends after an attempt that is the last one allowed
  or whose failure is not retried, with that attempt's result, or at a retry whose
  delay cannot be computed or slept, with \<open>OverflowError\<close>.  Every earlier attempt failed
  in a retryable way and was followed by its delay.
\<close>

declare fetch_page_loop.simps [simp del]

lemma upt_step: "a < b \<Longrightarrow> [a..<b] = a # [a + 1..<b]"
  by (simp add: upt_conv_Cons)

lemma fetch_page_loop_spec:
  assumes "attempt \<le> retries"
    and "fetch_page_loop sleep_limit server retries backoff attempt last_error slept = (res, n, sl)"
  shows "attempt < n \<and> n \<le> retries + 1
         \<and> sl = slept @ map (\<lambda>i. retry_delay backoff (server i) i) [attempt..<n - 1]
         \<and> (\<forall>i. attempt \<le> i \<and> i < n - 1 \<longrightarrow>
               retryable (server i) \<and> \<not> sleep_refused sleep_limit backoff (server i) i)
         \<and> (if n - 1 < retries \<and> retryable (server (n - 1))
             then res = Inl OverflowError \<and> sleep_refused sleep_limit backoff (server (n - 1)) (n - 1)
             else res = attempt_result (server (n - 1)))"
  using assms
proof (induction sleep_limit server retries backoff attempt last_error slept arbitrary: res n sl
       rule: fetch_page_loop.induct)
  case (1 sleep_limit server retries backoff attempt last_error slept)
  note eq = "1.prems"(2) [unfolded fetch_page_loop.simps [of sleep_limit server retries backoff attempt]]
  from "1.prems"(1) have lt: "attempt < retries + 1" by simp
  show ?case
  proof (cases "retryable (server attempt) \<and> attempt < retries")
    case False
    then have "(res, n, sl) = (attempt_result (server attempt), attempt + 1, slept)"
      using eq lt by (cases "server attempt") (auto split: if_splits)
    with False "1.prems"(1) show ?thesis by auto
  next
    case True
    define delay where "delay = retry_delay backoff (server attempt) attempt"
    show ?thesis
    proof (cases "sleep_refused sleep_limit backoff (server attempt) attempt")
      case refused: True
      with True have "(res, n, sl) = (Inl OverflowError, attempt + 1, slept)"
        using eq lt
        by (cases "server attempt")
           (auto simp: sleep_refused_def retry_delay_def Let_def split: if_splits)
      with True refused "1.prems"(1) show ?thesis by auto
    next
      case accepted: False
      then have small: "\<not> 1024 \<le> attempt" and fits: "\<not> sleep_limit < delay"
        by (simp_all add: sleep_refused_def delay_def)
      from True have le: "attempt + 1 \<le> retries" by simp
      have "\<exists>last. fetch_page_loop sleep_limit server retries backoff (attempt + 1) last
                     (slept @ [delay]) = (res, n, sl)
                   \<and> attempt + 1 < n \<and> n \<le> retries + 1
         \<and> sl = (slept @ [delay]) @ map (\<lambda>i. retry_delay backoff (server i) i) [attempt + 1..<n - 1]
         \<and> (\<forall>i. attempt + 1 \<le> i \<and> i < n - 1 \<longrightarrow>
               retryable (server i) \<and> \<not> sleep_refused sleep_limit backoff (server i) i)
         \<and> (if n - 1 < retries \<and> retryable (server (n - 1))
             then res = Inl OverflowError \<and> sleep_refused sleep_limit backoff (server (n - 1)) (n - 1)
             else res = attempt_result (server (n - 1)))"
      proof (cases "server attempt")
        case (Body data final_url)
        with True show ?thesis by simp
      next
        case (Uncaught msg)
        with True show ?thesis by simp
      next
        case Transport
        from eq lt Transport True small fits have rec:
          "fetch_page_loop sleep_limit server retries backoff (attempt + 1) (Some RequestError)
             (slept @ [delay]) = (res, n, sl)"
          by (simp add: delay_def retry_delay_def)
        from True have t: "attempt < retries" by simp
        from fits have f: "\<not> sleep_limit < backoff * 2 ^ attempt"
          by (simp add: delay_def retry_delay_def Transport)
        have d: "backoff * 2 ^ attempt = delay"
          by (simp add: delay_def retry_delay_def Transport)
        from "1.IH"(2) [OF lt Transport t small f le rec [folded d]] rec
        show ?thesis unfolding d by blast
      next
        case (Status status)
        from True Status have st: "status \<in> {429, 500, 502, 503, 504} \<and> attempt < retries"
          by simp
        define d0 where "d0 = backoff * 2 ^ attempt"
        define d1 where "d1 = (if status = 429 then max d0 10 else d0)"
        have d: "d1 = delay"
          by (simp add: delay_def retry_delay_def Status d1_def d0_def)
        from fits d have f: "\<not> sleep_limit < d1" by simp
        from eq lt Status st small f [unfolded d1_def d0_def] have rec:
          "fetch_page_loop sleep_limit server retries backoff (attempt + 1)
             (Some (HTTPStatusError status)) (slept @ [d1]) = (res, n, sl)"
          by (auto simp: Let_def d0_def d1_def split: if_splits)
        from "1.IH"(1) [OF lt Status st small d0_def d1_def f le rec] rec
        show ?thesis unfolding d by blast
      qed
      then obtain last where
        ih: "attempt + 1 < n" "n \<le> retries + 1"
          "sl = (slept @ [delay]) @ map (\<lambda>i. retry_delay backoff (server i) i) [attempt + 1..<n - 1]"
          "\<forall>i. attempt + 1 \<le> i \<and> i < n - 1 \<longrightarrow>
               retryable (server i) \<and> \<not> sleep_refused sleep_limit backoff (server i) i"
          "if n - 1 < retries \<and> retryable (server (n - 1))
             then res = Inl OverflowError \<and> sleep_refused sleep_limit backoff (server (n - 1)) (n - 1)
             else res = attempt_result (server (n - 1))"
        by blast
      from ih(1) have up: "[attempt..<n - 1] = attempt # [attempt + 1..<n - 1]"
        by (simp add: upt_step)
      have r: "\<forall>i. attempt \<le> i \<and> i < n - 1 \<longrightarrow>
               retryable (server i) \<and> \<not> sleep_refused sleep_limit backoff (server i) i"
      proof (intro allI impI)
        fix i assume i: "attempt \<le> i \<and> i < n - 1"
        show "retryable (server i) \<and> \<not> sleep_refused sleep_limit backoff (server i) i"
        proof (cases "i = attempt")
          case True
          with \<open>retryable (server attempt) \<and> attempt < retries\<close> accepted show ?thesis by simp
        next
          case False
          with i ih(4) show ?thesis by simp
        qed
      qed
      from ih(1,2,3,5) up r show ?thesis by (simp add: delay_def)
    qed
  qed
qed

text \<open>
  Whatever the settings, a call makes at least one attempt and at most
  \<open>max(0, retry_max) + 1\<close>: the retry loop is bounded.
\<close>

lemma fetch_page_attempts_bound:
  assumes "fetch_page sleep_limit server config = (res, n, sl)"
  shows "1 \<le> n \<and> n \<le> nat (max 0 (retry_max (match config))) + 1"
  using fetch_page_loop_spec [of 0 "nat (max 0 (retry_max (match config)))" sleep_limit server
          "max (1 / 10) (retry_backoff_seconds (match config))" None "[]" res n sl] assms
  by (simp add: fetch_page_def Let_def)







subsection \<open>Notification failure and the dedup state\<close>

text \<open>
  A loop of posts raises exactly when one of its posts does; without a webhook URL and
  without both a bot token and a channel id, a delivery that is not a dry run raises.
\<close>

lemma post_each_raises:
  "post_each post i ps \<noteq> None \<longleftrightarrow> (\<exists>k < length ps. post (i + k) (ps ! k) \<noteq> None)"
proof (induction ps arbitrary: i)
  case Nil
  then show ?case by simp
next
  case (Cons p ps)
  show ?case
  proof (cases "post i p")
    case (Some e)
    then have "post (i + 0) ((p # ps) ! 0) \<noteq> None" by simp
    then have "\<exists>k < length (p # ps). post (i + k) ((p # ps) ! k) \<noteq> None" by blast
    with Some show ?thesis by simp
  next
    case None
    have "(\<exists>k < length (p # ps). post (i + k) ((p # ps) ! k) \<noteq> None)
          \<longleftrightarrow> (\<exists>k < length ps. post (Suc i + k) (ps ! k) \<noteq> None)"
    proof
      assume "\<exists>k < length (p # ps). post (i + k) ((p # ps) ! k) \<noteq> None"
      then obtain k where k: "k < length (p # ps)" "post (i + k) ((p # ps) ! k) \<noteq> None" by blast
      with None obtain j where "k = Suc j" by (cases k) auto
      with k show "\<exists>k < length ps. post (Suc i + k) (ps ! k) \<noteq> None" by auto
    next
      assume "\<exists>k < length ps. post (Suc i + k) (ps ! k) \<noteq> None"
      then obtain k where "k < length ps" "post (Suc i + k) (ps ! k) \<noteq> None" by blast
      then have "Suc k < length (p # ps)" "post (i + Suc k) ((p # ps) ! Suc k) \<noteq> None" by simp_all
      then show "\<exists>k < length (p # ps). post (i + k) ((p # ps) ! k) \<noteq> None" by blast
    qed
    with None Cons.IH [of "Suc i"] show ?thesis by simp
  qed
qed

lemma notify_without_credentials:
  assumes "ms \<noteq> []" "\<not> dry_run (notify config)"
    "\<not> opt_truthy (discord_webhook_url (notify config))"
    "\<not> (opt_truthy (discord_bot_token (notify config)) \<and> opt_truthy (discord_channel_id (notify config)))"
  shows "\<exists>msg. notify_matches tr ms config = Inl (RuntimeError msg)"
  using assms by (auto simp: notify_matches_def send_payloads_def Let_def)

lemma notify_webhook_failure:
  assumes "ms \<noteq> []" "\<not> dry_run (notify config)"
    "discord_webhook_url (notify config) = Some webhook_url" "webhook_url \<noteq> []"
    "k < length (build_payloads ms)"
    "webhook_post tr k webhook_url (build_payloads ms ! k) \<noteq> None"
  shows "\<exists>e. notify_matches tr ms config = Inl e"
proof -
  from assms(5,6) have
    "\<exists>k < length (build_payloads ms).
        webhook_post tr (0 + k) webhook_url (build_payloads ms ! k) \<noteq> None"
    by auto
  then have "post_each (\<lambda>i p. webhook_post tr i webhook_url p) 0 (build_payloads ms) \<noteq> None"
    by (simp only: post_each_raises)
  with assms(1-4) show ?thesis
    by (auto simp: notify_matches_def send_payloads_def Let_def opt_truthy_def)
qed

text \<open>
  C5.  Take a run whose collection, state load and matching succeed.  If it has new
  matches and the notification raises, \<open>run\<close> raises that exception, the \<open>State\<close>
  object is the one \<open>load_state\<close> returned (its seen ids are unchanged), the state file
  is as it was and was not written.  If it has no new match, the file is not written
  either, and the run returns its summary.
\<close>

theorem run_failed_notification_keeps_state:
  assumes "collect_opportunities config fetch = Inr (opps, reps, errs)"
    and "load_state disk0 = Inr st"
    and "match_opportunities class_attrs opps config = Inr mr"
  shows "(filter_new (matches mr) st \<noteq> []
          \<and> notify_matches tr (filter_new (matches mr) st) config = Inl e \<longrightarrow>
            run class_attrs config explain fetch tr disk0
              = \<lparr>result = Inl e, memory = Some st, disk = disk0, writes = 0\<rparr>)
       \<and> (filter_new (matches mr) st = [] \<longrightarrow>
            writes (run class_attrs config explain fetch tr disk0) = 0
            \<and> disk (run class_attrs config explain fetch tr disk0) = disk0
            \<and> memory (run class_attrs config explain fetch tr disk0) = Some st
            \<and> (\<exists>summary. result (run class_attrs config explain fetch tr disk0) = Inr summary
                  \<and> new_matches summary = 0))"
  using assms by (simp add: run_def Let_def)

lemma sample_collect:
  "collect_opportunities sample_config sample_fetch
     = Inr (sample_opportunities, [\<lparr>rep_name = ''sbir'', rep_count = 2\<rparr>], [])"
  "collect_opportunities webhook_config sample_fetch
     = Inr (sample_opportunities, [\<lparr>rep_name = ''sbir'', rep_count = 2\<rparr>], [])"
  by (simp_all add: collect_opportunities_def collect_run_def guarded_source_def try_source_def
        webhook_config_def sample_config_def default_config_def sample_fetch_def sample_opportunities_def)

lemma sample_matching:
  "match_opportunities sample_class_attrs sample_opportunities sample_config = Inr sample_result"
  "match_opportunities sample_class_attrs sample_opportunities webhook_config = Inr sample_result"
  by code_simp+

lemma sample_loads:
  "load_state Missing = Inr \<lparr>seen_ids = {}\<rparr>"
  "load_state seen_a_file = Inr \<lparr>seen_ids = {KStr ''a''}\<rparr>"
  by (simp_all add: load_state_def seen_a_file_def dict_get_def set_add_def)

lemma sample_new:
  "filter_new (matches sample_result) \<lparr>seen_ids = {}\<rparr> = matches sample_result"
  "matches sample_result \<noteq> []"
  "filter_new (matches sample_result) \<lparr>seen_ids = {KStr ''a''}\<rparr> = []"
  by (simp_all add: sample_result_def sample_opportunity_def)

lemma sample_delivery:
  "notify_matches dead_transport (matches sample_result) sample_config
     = Inl (RuntimeError (''Discord credentials not configured. Set DISCORD_WEBHOOK_URL or ''
                 @ ''DISCORD_TOKEN + DISCORD_CHANNEL_ID.''))"
  "notify_matches dead_transport (matches sample_result) webhook_config
     = Inl (OtherError ''connection refused'')"
  by code_simp+

theorem run_failed_notification_keeps_state_witness:
  "run sample_class_attrs sample_config False sample_fetch dead_transport Missing
     = \<lparr>result = Inl (RuntimeError (''Discord credentials not configured. Set DISCORD_WEBHOOK_URL or ''
                 @ ''DISCORD_TOKEN + DISCORD_CHANNEL_ID.'')),
        memory = Some \<lparr>seen_ids = {}\<rparr>, disk = Missing, writes = 0\<rparr>
   \<and> run sample_class_attrs webhook_config False sample_fetch dead_transport Missing
     = \<lparr>result = Inl (OtherError ''connection refused''),
        memory = Some \<lparr>seen_ids = {}\<rparr>, disk = Missing, writes = 0\<rparr>
   \<and> writes (run sample_class_attrs sample_config False sample_fetch dead_transport seen_a_file) = 0
   \<and> disk (run sample_class_attrs sample_config False sample_fetch dead_transport seen_a_file) = seen_a_file
   \<and> memory (run sample_class_attrs sample_config False sample_fetch dead_transport seen_a_file)
       = Some \<lparr>seen_ids = {KStr ''a''}\<rparr>"
  using run_failed_notification_keeps_state
          [OF sample_collect(1) sample_loads(1) sample_matching(1),
           of dead_transport _ False]
        run_failed_notification_keeps_state
          [OF sample_collect(2) sample_loads(1) sample_matching(2),
           of dead_transport _ False]
        run_failed_notification_keeps_state
          [OF sample_collect(1) sample_loads(2) sample_matching(1),
           of dead_transport _ False]
        sample_new sample_delivery
  by simp

text \<open>Whatever exception ends a run, the state file is as it was.\<close>

lemma run_error_leaves_file:
  "result (run class_attrs config explain fetch tr disk0) = Inl e \<Longrightarrow>
     disk (run class_attrs config explain fetch tr disk0) = disk0 \<and> writes (run class_attrs config explain fetch tr disk0) = 0"
  by (auto simp: run_def Let_def split: sum.splits prod.splits if_splits)

subsection \<open>Scope of the source whitelist\<close>

text \<open>
  The opportunities of the matches are the input opportunities with the verdict
  \<open>Accept\<close>, in input order.
\<close>

lemma record_verdict_matches:
  "map opportunity (matches (record_verdict config acc op1 v))
     = map opportunity (matches acc) @ (case v of Accept sc kws t \<Rightarrow> [op1] | Skip sc kws why \<Rightarrow> [])"
  by (cases v) (simp_all add: record_verdict_def)

lemma match_step_verdict:
  assumes "match_step class_attrs config kwds excludes wl compiled cex acc op1 = Inr acc'"
  shows "\<exists>v. verdict_of class_attrs config kwds excludes wl compiled cex op1 = Inr v
             \<and> acc' = record_verdict config acc op1 v"
  using assms by (auto simp: match_step_def split: sum.splits)

lemma matches_follow_verdicts:
  assumes "match_loop (match_step class_attrs config kwds excludes wl compiled cex) opps acc = Inr r"
  shows "map opportunity (matches r)
           = map opportunity (matches acc)
             @ filter (\<lambda>op1. \<exists>sc kws t. verdict_of class_attrs config kwds excludes wl compiled cex op1
                                          = Inr (Accept sc kws t)) opps"
  using assms
proof (induction opps arbitrary: acc)
  case Nil
  then show ?case by simp
next
  case (Cons op1 opps)
  from Cons.prems obtain acc' where
    step: "match_step class_attrs config kwds excludes wl compiled cex acc op1 = Inr acc'" and
    rest': "match_loop (match_step class_attrs config kwds excludes wl compiled cex) opps acc' = Inr r"
    by (auto split: sum.splits)
  from match_step_verdict [OF step] obtain v where
    v: "verdict_of class_attrs config kwds excludes wl compiled cex op1 = Inr v" and
    acc': "acc' = record_verdict config acc op1 v" by blast
  from rest' acc' have
    rest: "match_loop (match_step class_attrs config kwds excludes wl compiled cex) opps
             (record_verdict config acc op1 v) = Inr r" by simp
  from Cons.IH [OF rest] v show ?case
    by (cases v) (simp_all add: record_verdict_matches)
qed

text \<open>
  The agency filter and a non-empty first exclude keyword skip a record whatever its
  source; a whitelisted record that passes both is accepted whatever its score and
  also with an empty text; a record that is not whitelisted is skipped when its text
  is empty or its score is below the minimum.
\<close>

lemma agency_filter_ignores_whitelist:
  assumes "agencies (match config) \<noteq> []"
    and "str_upper (str_or (agency op1) []) \<notin> set (agencies (match config))"
  shows "verdict_of class_attrs config kwds excludes wl compiled cex op1 = Inr (Skip 0 [] ''agency_filtered'')"
  using assms by (simp add: verdict_of_def Let_def)

lemma exclusion_ignores_whitelist:
  assumes "agencies (match config) = []
           \<or> str_upper (str_or (agency op1) []) \<in> set (agencies (match config))"
    and "build_text class_attrs op1 config = Inr t" and "t \<noteq> []"
    and "first_excluded t cex excludes = Some kw" and "kw \<noteq> []"
  shows "verdict_of class_attrs config kwds excludes wl compiled cex op1
           = Inr (Skip 0 [] (''excluded_keyword:'' @ kw))"
  using assms by (auto simp: verdict_of_def Let_def opt_truthy_def)

lemma whitelist_overrides_threshold_and_empty_text:
  assumes "agencies (match config) = []
           \<or> str_upper (str_or (agency op1) []) \<in> set (agencies (match config))"
    and "build_text class_attrs op1 config = Inr t"
    and "t = [] \<or> \<not> opt_truthy (first_excluded t cex excludes)"
    and "str_lower (str_or (source op1) []) \<in> wl"
  shows "\<exists>sc kws. verdict_of class_attrs config kwds excludes wl compiled cex op1 = Inr (Accept sc kws t)"
  using assms by (auto simp: verdict_of_def Let_def opt_truthy_def)

lemma not_whitelisted_needs_text_and_score:
  assumes "build_text class_attrs op1 config = Inr t"
    and "str_lower (str_or (source op1) []) \<notin> wl"
    and "t = [] \<or> int (length (filter (\<lambda>(kw, pattern). pattern_search pattern t) (zip kwds compiled)))
                     < min_score (match config)"
  shows "\<exists>sc kws why. verdict_of class_attrs config kwds excludes wl compiled cex op1 = Inr (Skip sc kws why)"
  using assms by (auto simp: verdict_of_def Let_def opt_truthy_def)

text \<open>
  C3.  With the exclude keywords \<open>""\<close> and \<open>weapon\<close> and the source \<open>sbir\<close>
  whitelisted, the record titled \<open>weapon systems\<close> matches the exclude keyword
  \<open>weapon\<close>, and it is accepted as a match: \<open>_first_excluded\<close> returns the first keyword
  whose pattern matches, the empty string (its pattern matches every text), and
  \<open>if excluded:\<close> is false for the empty string.
\<close>

theorem empty_exclude_keyword_masks_exclusion:
  "pattern_search (compile_keyword ''weapon'') ''weapon systems''
   \<and> first_excluded ''weapon systems'' (map compile_keyword [[], ''weapon'']) [[], ''weapon'']
       = Some []
   \<and> match_opportunities sample_class_attrs [weapon_opportunity] masked_exclude_config
       = Inr \<lparr>matches = [\<lparr>opportunity = weapon_opportunity, score = 0, matched_keywords = [],
                           matched_text = ''weapon systems''\<rparr>],
              skipped = 0,
              evaluations = [\<lparr>ev_opportunity = weapon_opportunity, ev_score = 0,
                               ev_matched_keywords = [],
                               ev_reason = Some ''source_whitelist''\<rparr>]\<rparr>"
  by code_simp

end
